theory Spec2Isabelle
  imports Complex_Main
begin

section \<open>Seasonal thermal energy storage: the model of STES.py\<close>

text \<open>
  The class \<open>ThermalStorage\<close> of \<open>currently_not_used/STES/STES.py\<close> is embedded as a
  record of its attributes and one function per method.

  Conventions of the embedding.
  \<^item> Python and NumPy floats are real numbers with exact arithmetic: rounding, infinities
    and overflow are outside the model, and \<open>/\<close> is the total division of the reals
    (where Python would divide by a float zero the model computes with HOL's \<open>x / 0 = 0\<close>;
    the integer divisor \<open>num_layers = 0\<close> is modelled as the exception it raises).
  \<^item> A cell of a NumPy float array that the single-node simulator may fill with \<open>nan\<close> is a
    \<open>real option\<close>, \<open>None\<close> standing for \<open>nan\<close>.
  \<^item> Every \<open>raise\<close> is a value \<open>Inl e\<close> of \<open>error + 'a\<close>; tuple unpacking and indexing of
    the caller's data (\<open>dimensions\<close>, \<open>Q_in\<close>, \<open>Q_out\<close>) and of the arrays of \<open>self\<close> raise as
    Python does. Arrays a method allocates itself and indexes with its own loop variable
    (\<open>heat_stored_per_layer\<close>, the rows of \<open>T_sto_layers\<close>) are read with \<open>!\<close> and written
    with list update, which are in range by construction.
\<close>

datatype error = ValueError string | IndexError | ZeroDivisionError

type_synonym cell = "real option"

definition and_then :: "error + 'a \<Rightarrow> ('a \<Rightarrow> error + 'b) \<Rightarrow> error + 'b" where
  "and_then r f = (case r of Inl e \<Rightarrow> Inl e | Inr x \<Rightarrow> f x)"

text \<open>Indexing \<open>xs[i]\<close> with Python's negative indices, and the item assignment \<open>xs[i] = v\<close>
  for a loop index \<open>i \<ge> 0\<close>.\<close>

definition py_get :: "'a list \<Rightarrow> int \<Rightarrow> error + 'a" where
  "py_get xs i =
     (if 0 \<le> i \<and> i < int (length xs) then Inr (xs ! nat i)
      else if i < 0 \<and> - int (length xs) \<le> i then Inr (xs ! nat (int (length xs) + i))
      else Inl IndexError)"

definition py_set :: "'a list \<Rightarrow> nat \<Rightarrow> 'a \<Rightarrow> error + 'a list" where
  "py_set xs i v = (if i < length xs then Inr (xs[i := v]) else Inl IndexError)"

fun run_steps :: "(nat \<Rightarrow> 's \<Rightarrow> error + 's) \<Rightarrow> nat list \<Rightarrow> 's \<Rightarrow> error + 's" where
  "run_steps f [] s = Inr s"
| "run_steps f (t # ts) s = and_then (f t s) (run_steps f ts)"

subsection \<open>The object\<close>

text \<open>The constructor's arguments that it stores unchanged (\<open>initial_temp\<close> is not stored:
  it only fills \<open>T_sto[0]\<close>).\<close>

record storage_params =
  storage_type :: string
  dimensions :: "real list"
  rho :: real
  cp :: real
  T_ref :: real
  lambda_top :: real
  lambda_side :: real
  lambda_bottom :: real
  lambda_soil :: real
  T_amb :: real
  T_soil :: real
  T_max :: real
  T_min :: real
  dt_top :: real
  ds_side :: real
  db_bottom :: real
  hours :: nat
  num_layers :: nat
  thermal_conductivity :: real

text \<open>The object: the stored arguments, the three result arrays, the geometry, and the
  attributes that the stratified methods assign (\<open>Q_loss_layers\<close>, \<open>T_sto_layers\<close>; they are
  assigned before they are read, the constructor's \<open>[]\<close> is never read).\<close>

record thermal_storage = storage_params +
  Q_sto :: "real list"
  Q_loss :: "real list"
  T_sto :: "real list"
  volume :: real
  S_top :: real
  S_side :: real
  S_bottom :: real
  Q_loss_layers :: "real list"
  T_sto_layers :: "real list list"

subsection \<open>Geometry\<close>

definition calculate_cylindrical_geometry :: "real list \<Rightarrow> error + (real \<times> real \<times> real \<times> real)" where
  "calculate_cylindrical_geometry dims =
     (case dims of
        [radius, height] \<Rightarrow>
          Inr (pi * radius ^ 2 * height, pi * radius ^ 2, 2 * pi * radius * height, pi * radius ^ 2)
      | _ \<Rightarrow> Inl (ValueError ''values to unpack''))"

definition calculate_truncated_cone_geometry :: "real list \<Rightarrow> error + (real \<times> real \<times> real \<times> real)" where
  "calculate_truncated_cone_geometry dims =
     (case dims of
        [top_radius, bottom_radius, height] \<Rightarrow>
          (let vol = (1 / 3) * pi * height * (top_radius ^ 2 + bottom_radius ^ 2 + top_radius * bottom_radius);
               S_t = pi * top_radius ^ 2;
               S_b = pi * bottom_radius ^ 2;
               slant_height = sqrt ((top_radius - bottom_radius) ^ 2 + height ^ 2);
               S_s = pi * (top_radius + bottom_radius) * slant_height
           in Inr (vol, S_t, S_s, S_b))
      | _ \<Rightarrow> Inl (ValueError ''values to unpack''))"

definition calculate_truncated_trapezoid_geometry :: "real list \<Rightarrow> error + (real \<times> real \<times> real \<times> real)" where
  "calculate_truncated_trapezoid_geometry dims =
     (case dims of
        [top_length, top_width, bottom_length, bottom_width, height] \<Rightarrow>
          (let A_top = top_length * top_width;
               A_bottom = bottom_length * bottom_width;
               vol = (1 / 3) * height * (A_top + A_bottom + sqrt (A_top * A_bottom));
               side_length = sqrt ((top_length - bottom_length) ^ 2 + height ^ 2);
               side_width = sqrt ((top_width - bottom_width) ^ 2 + height ^ 2);
               S_side_length = (top_length + bottom_length) * side_length / 2;
               S_side_width = (top_width + bottom_width) * side_width / 2;
               S_t = top_length * top_width;
               S_b = bottom_length * bottom_width;
               S_s = 2 * (S_side_length + S_side_width)
           in Inr (vol, S_t, S_s, S_b))
      | _ \<Rightarrow> Inl (ValueError ''values to unpack''))"

text \<open>The dispatch on the storage type in \<open>__init__\<close> (lines 161 to 169).\<close>

definition compute_geometry :: "string \<Rightarrow> real list \<Rightarrow> error + (real \<times> real \<times> real \<times> real)" where
  "compute_geometry st dims =
     (if st = ''cylindrical'' then calculate_cylindrical_geometry dims
      else if st = ''truncated_cone'' then calculate_truncated_cone_geometry dims
      else if st = ''truncated_trapezoid'' then calculate_truncated_trapezoid_geometry dims
      else Inl (ValueError ''Unsupported storage type''))"

text \<open>\<open>__init__\<close>: the arrays are \<open>np.zeros(hours)\<close>, then \<open>T_sto[0] = initial_temp\<close> (an
  \<open>IndexError\<close> when \<open>hours = 0\<close>), then the geometry.\<close>

definition init :: "storage_params \<Rightarrow> real \<Rightarrow> error + thermal_storage" where
  "init p initial_temp =
     and_then (py_set (replicate (hours p) 0) 0 initial_temp) (\<lambda>T0.
     and_then (compute_geometry (storage_type p) (dimensions p)) (\<lambda>(vol, S_t, S_s, S_b).
       Inr \<lparr>storage_type = storage_type p, dimensions = dimensions p, rho = rho p, cp = cp p,
            T_ref = T_ref p, lambda_top = lambda_top p, lambda_side = lambda_side p,
            lambda_bottom = lambda_bottom p, lambda_soil = lambda_soil p, T_amb = T_amb p,
            T_soil = T_soil p, T_max = T_max p, T_min = T_min p, dt_top = dt_top p,
            ds_side = ds_side p, db_bottom = db_bottom p, hours = hours p,
            num_layers = num_layers p, thermal_conductivity = thermal_conductivity p,
            Q_sto = replicate (hours p) 0, Q_loss = replicate (hours p) 0, T_sto = T0,
            volume = vol, S_top = S_t, S_side = S_s, S_bottom = S_b,
            Q_loss_layers = [], T_sto_layers = []\<rparr>))"

subsection \<open>Heat loss\<close>

definition dim_at :: "thermal_storage \<Rightarrow> nat \<Rightarrow> error + real" where
  "dim_at self k = py_get (dimensions self) (int k)"

text \<open>\<open>calculate_heat_loss\<close>: the lumped loss in kW. \<open>Inr None\<close> is the call that reaches the
  end of the method without a \<open>return\<close> (Python's \<open>None\<close>).\<close>

definition calculate_heat_loss :: "thermal_storage \<Rightarrow> real \<Rightarrow> error + real option" where
  "calculate_heat_loss self T_sto_last =
     (if storage_type self = ''cylindrical_overground'' then
        (let Q_t = (T_sto_last - T_amb self) * (lambda_top self / dt_top self) * S_top self;
             Q_s = (T_sto_last - T_amb self) * (lambda_side self / ds_side self) * S_side self
         in and_then (dim_at self 0) (\<lambda>d0.
              let Q_b = (T_sto_last - T_amb self)
                        * inverse (db_bottom self / lambda_bottom self + 4 * d0 / (3 * pi * lambda_soil self))
                        * S_bottom self
              in Inr (Some ((Q_t + Q_s + Q_b) / 1000))))
      else if storage_type self = ''cylindrical_underground'' then
        and_then (dim_at self 0) (\<lambda>R.
        and_then (dim_at self 1) (\<lambda>H.
          let d_min = (lambda_side self / lambda_soil self) * R * 0.37
          in if ds_side self > 2 * d_min then
               (let K_sb = inverse (ds_side self / lambda_side self + 0.52 * R / lambda_soil self);
                    S_c = pi * R ^ 2 + 2 * pi * R * H;
                    Q_sb = (T_sto_last - T_soil self) * K_sb * S_c
                in Inr (Some (Q_sb / 1000)))
             else Inl (ValueError ''Insulation thickness too small compared to minimum required thickness.'')))
      else if storage_type self = ''truncated_cone'' \<or> storage_type self = ''truncated_trapezoid'' then
        and_then (dim_at self 2) (\<lambda>H.
          let a = ds_side self / lambda_side self + pi * H / (2 * lambda_soil self);
              b = pi / lambda_soil self;
              K_s = (1 / (b * H)) * ln ((a + b * H) / a);
              Q_s = (T_sto_last - T_soil self) * K_s * S_side self;
              c = db_bottom self / lambda_bottom self + pi * H / (2 * lambda_soil self)
          in and_then (dim_at self 1) (\<lambda>d1.
               let K_b = (1 / (2 * b * d1)) * ln ((c + b * d1) / c);
                   Q_b = (T_sto_last - T_soil self) * K_b * S_bottom self
               in Inr (Some ((Q_s + Q_b) / 1000))))
      else Inr None)"

text \<open>One iteration of the loop of \<open>calculate_stratified_heat_loss\<close>: the value left in
  \<open>Q_loss_layers[i]\<close> for a layer vector of length \<open>n\<close>. A storage type that matches no branch
  leaves the cell at the 0 of \<open>np.zeros\<close>.\<close>

definition layer_loss :: "thermal_storage \<Rightarrow> nat \<Rightarrow> nat \<Rightarrow> real \<Rightarrow> error + real" where
  "layer_loss self n i T_layer =
     (if storage_type self = ''cylindrical_overground'' then
        (if i = 0 then
           Inr ((lambda_top self / dt_top self) * S_top self * (T_layer - T_amb self) / 1000)
         else if i = n - 1 then
           and_then (dim_at self 0) (\<lambda>d0.
             Inr (inverse (db_bottom self / lambda_bottom self + 4 * d0 / (3 * pi * lambda_soil self))
                  * S_bottom self * (T_layer - T_amb self) / 1000))
         else
           Inr ((lambda_side self / ds_side self) * (T_layer - T_amb self) * S_side self / real n / 1000))
      else if storage_type self = ''cylindrical_underground'' then
        and_then (dim_at self 0) (\<lambda>R.
        and_then (dim_at self 1) (\<lambda>H.
          let d_min = (lambda_side self / lambda_soil self) * R * 0.37
          in if ds_side self > 2 * d_min then
               (let K_sb = inverse (ds_side self / lambda_side self + 0.52 * R / lambda_soil self);
                    S_c = pi * R ^ 2 + 2 * pi * R * H
                in if i = 0 then
                     Inr ((lambda_top self / dt_top self) * S_top self * (T_layer - T_amb self) / 1000)
                   else
                     Inr (K_sb * S_c * (T_layer - T_soil self) / real n / 1000))
             else Inl (ValueError ''Insulation thickness too small compared to minimum required thickness.'')))
      else if storage_type self = ''truncated_cone'' \<or> storage_type self = ''truncated_trapezoid'' then
        and_then (dim_at self 2) (\<lambda>H.
          let a = ds_side self / lambda_side self + pi * H / (2 * lambda_soil self);
              b = pi / lambda_soil self;
              K_s = (1 / (b * H)) * ln ((a + b * H) / a);
              c = db_bottom self / lambda_bottom self + pi * H / (2 * lambda_soil self)
          in and_then (dim_at self 1) (\<lambda>d1.
               let K_b = (1 / (2 * b * d1)) * ln ((c + b * d1) / c)
               in if i = 0 then
                    Inr ((lambda_top self / dt_top self) * S_top self * (T_layer - T_amb self) / 1000)
                  else if i = n - 1 then
                    Inr (K_b * S_bottom self * (T_layer - T_soil self) / 1000)
                  else
                    Inr (K_s * S_side self * (T_layer - T_soil self) / real n / 1000)))
      else Inr 0)"

text \<open>The loop \<open>for i, T_layer in enumerate(T_sto_layers)\<close>, from index \<open>i\<close> on.\<close>

fun layer_losses :: "thermal_storage \<Rightarrow> nat \<Rightarrow> nat \<Rightarrow> real list \<Rightarrow> error + real list" where
  "layer_losses self n i [] = Inr []"
| "layer_losses self n i (T_layer # Ts) =
     and_then (layer_loss self n i T_layer) (\<lambda>q.
     and_then (layer_losses self n (Suc i) Ts) (\<lambda>qs. Inr (q # qs)))"

text \<open>\<open>calculate_stratified_heat_loss\<close>: the new \<open>self.Q_loss_layers\<close> and the returned
  \<open>np.sum\<close> of it.\<close>

definition calculate_stratified_heat_loss :: "thermal_storage \<Rightarrow> real list \<Rightarrow> error + (real list \<times> real)" where
  "calculate_stratified_heat_loss self Ts =
     and_then (layer_losses self (length Ts) 0 Ts) (\<lambda>qs. Inr (qs, sum_list qs))"

subsection \<open>Single-node simulator\<close>

text \<open>The three arrays \<open>Q_sto\<close>, \<open>Q_loss\<close>, \<open>T_sto\<close> while \<open>simulate\<close> runs. NumPy stores
  \<open>None\<close> into a float array as \<open>nan\<close>, and \<open>nan\<close> spreads through every sum, product and
  quotient; a comparison with \<open>nan\<close> is false.\<close>

record trajectory =
  Q_sto_cells :: "cell list"
  Q_loss_cells :: "cell list"
  T_sto_cells :: "cell list"

text \<open>\<open>calculate_heat_loss\<close> called on a cell. On \<open>nan\<close> each dispatch branch computes
  \<open>nan\<close>; which branch is taken, and whether it raises, does not depend on the temperature.\<close>

definition heat_loss_cell :: "thermal_storage \<Rightarrow> cell \<Rightarrow> error + cell" where
  "heat_loss_cell self c =
     (case c of
        Some T_sto_last \<Rightarrow> calculate_heat_loss self T_sto_last
      | None \<Rightarrow> and_then (calculate_heat_loss self 0) (\<lambda>_. Inr None))"

text \<open>The body of the loop of \<open>simulate\<close> at hour \<open>t\<close>. A cell read back right after its own
  assignment (\<open>Q_loss[t]\<close>, \<open>Q_sto[t]\<close>) is the value just stored.\<close>

definition simulate_step ::
    "thermal_storage \<Rightarrow> real list \<Rightarrow> real list \<Rightarrow> nat \<Rightarrow> trajectory \<Rightarrow> error + trajectory" where
  "simulate_step self Q_in Q_out t tr =
     and_then (py_get (T_sto_cells tr) (int t - 1)) (\<lambda>T_prev.
     and_then (heat_loss_cell self T_prev) (\<lambda>loss.
     and_then (py_set (Q_loss_cells tr) t loss) (\<lambda>Ql.
     and_then
       (if t = 0 then
          and_then (py_get (T_sto_cells tr) (int t)) (\<lambda>T_0.
          and_then (py_set (Q_sto_cells tr) t
                      (map_option (\<lambda>T. volume self * rho self * cp self * (T - T_ref self) / 3600000) T_0)) (\<lambda>Qs.
            Inr (Qs, T_sto_cells tr)))
        else
          and_then (py_get (Q_sto_cells tr) (int t - 1)) (\<lambda>q_prev.
          and_then (py_get Q_in (int t)) (\<lambda>q_in.
          and_then (py_get Q_out (int t)) (\<lambda>q_out.
            let q_t = (case (q_prev, loss) of
                         (Some q, Some l) \<Rightarrow> Some (q + (q_in - q_out - l))
                       | _ \<Rightarrow> None)
            in and_then (py_set (Q_sto_cells tr) t q_t) (\<lambda>Qs.
               and_then (py_set (T_sto_cells tr) t
                           (map_option (\<lambda>q. (q * 3600000) / (volume self * rho self * cp self) + T_ref self) q_t)) (\<lambda>Ts.
                 Inr (Qs, Ts)))))))
       (\<lambda>(Qs, Ts).
          and_then (py_get Ts (int t)) (\<lambda>T_t.
            Inr \<lparr>Q_sto_cells = Qs, Q_loss_cells = Ql,
                 T_sto_cells =
                   (case T_t of
                      None \<Rightarrow> Ts
                    | Some T \<Rightarrow>
                        if T > T_max self then Ts[t := Some (T_max self)]
                        else if T < T_min self then Ts[t := Some (T_min self)]
                        else Ts)\<rparr>)))))"

text \<open>The loop of \<open>simulate\<close> over the hours \<open>ts\<close>, started on the arrays of the object, and
  \<open>simulate\<close> itself: \<open>for t in range(0, self.hours)\<close>.\<close>

definition simulate_run ::
    "thermal_storage \<Rightarrow> real list \<Rightarrow> real list \<Rightarrow> nat list \<Rightarrow> error + trajectory" where
  "simulate_run self Q_in Q_out ts =
     run_steps (simulate_step self Q_in Q_out) ts
       \<lparr>Q_sto_cells = map Some (Q_sto self), Q_loss_cells = map Some (Q_loss self),
        T_sto_cells = map Some (T_sto self)\<rparr>"

definition simulate :: "thermal_storage \<Rightarrow> real list \<Rightarrow> real list \<Rightarrow> error + trajectory" where
  "simulate self Q_in Q_out = simulate_run self Q_in Q_out [0..<hours self]"

subsection \<open>Stratified simulator\<close>

text \<open>The three inner loops of \<open>simulate_stratified\<close>, one iteration each. \<open>prev\<close> is the row
  \<open>T_sto_layers[t-1]\<close>, \<open>row\<close> the row \<open>T_sto_layers[t]\<close>, \<open>heat\<close> is \<open>heat_stored_per_layer\<close>.\<close>

definition discharge_layer ::
    "thermal_storage \<Rightarrow> real \<Rightarrow> real list \<Rightarrow> nat \<Rightarrow> real list \<times> real list \<times> real
       \<Rightarrow> real list \<times> real list \<times> real" where
  "discharge_layer self layer_volume prev i st =
     (case st of (heat, row, remaining_heat) \<Rightarrow>
        if remaining_heat < 0 then
          (let available_heat_in_layer =
                 (prev ! i - T_min self) * layer_volume * rho self * cp self / 3600000;
               heat_needed = \<bar>remaining_heat\<bar>
           in if heat_needed \<ge> available_heat_in_layer then
                (heat[i := heat ! i - available_heat_in_layer], row[i := T_min self],
                 remaining_heat + available_heat_in_layer)
              else
                (heat[i := heat ! i - heat_needed],
                 row[i := prev ! i - (heat_needed * 3600000) / (layer_volume * rho self * cp self)],
                 0))
        else (heat, row, remaining_heat))"

definition charge_layer ::
    "thermal_storage \<Rightarrow> real \<Rightarrow> real list \<Rightarrow> real list \<Rightarrow> nat \<Rightarrow> real list \<times> real list \<times> real
       \<Rightarrow> real list \<times> real list \<times> real" where
  "charge_layer self layer_volume prev loss_layers i st =
     (case st of (heat, row, remaining_heat) \<Rightarrow>
        let heat_loss_layer = loss_layers ! i;
            max_heat_in_layer = (T_max self - prev ! i) * layer_volume * rho self * cp self / 3600000;
            (heat1, row1, remaining1) =
              (if remaining_heat > 0 then
                 (if remaining_heat \<ge> max_heat_in_layer then
                    (heat[i := heat ! i + max_heat_in_layer], row[i := T_max self],
                     remaining_heat - max_heat_in_layer)
                  else
                    (heat[i := heat ! i + remaining_heat],
                     row[i := prev ! i + (remaining_heat * 3600000) / (layer_volume * rho self * cp self)],
                     0))
               else (heat, row[i := prev ! i], remaining_heat));
            heat2 = heat1[i := heat1 ! i - heat_loss_layer / 3600];
            row2 = (if row1 ! i < T_min self then row1[i := T_min self] else row1)
        in (heat2, row2, remaining1))"

definition diffuse_pair ::
    "thermal_storage \<Rightarrow> real \<Rightarrow> real \<Rightarrow> real \<Rightarrow> nat \<Rightarrow> real list \<times> real list \<Rightarrow> real list \<times> real list" where
  "diffuse_pair self conductivity layer_thickness layer_volume i st =
     (case st of (heat, row) \<Rightarrow>
        let delta_T = row ! i - row ! (i + 1);
            heat_transfer = conductivity * S_side self * delta_T / layer_thickness;
            heat_transfer_kWh = heat_transfer / 3600000 * 3600;
            heat1 = heat[i := heat ! i - heat_transfer_kWh];
            heat2 = heat1[i + 1 := heat1 ! (i + 1) + heat_transfer_kWh];
            row1 = row[i := (heat2 ! i * 3600000) / (layer_volume * rho self * cp self) + T_ref self];
            row2 = row1[i + 1 := (heat2 ! (i + 1) * 3600000) / (layer_volume * rho self * cp self) + T_ref self]
        in (heat2, row2))"

text \<open>The value of the local \<open>heat_transfer_kWh\<close> of that iteration.\<close>

definition heat_transfer_kWh :: "thermal_storage \<Rightarrow> real \<Rightarrow> real \<Rightarrow> real list \<Rightarrow> nat \<Rightarrow> real" where
  "heat_transfer_kWh self conductivity layer_thickness row i =
     conductivity * S_side self * (row ! i - row ! (i + 1)) / layer_thickness / 3600000 * 3600"

text \<open>The diffusion loop \<open>for i in range(num_layers - 1)\<close>.\<close>

definition diffusion_pass ::
    "thermal_storage \<Rightarrow> real \<Rightarrow> real \<Rightarrow> real \<Rightarrow> nat \<Rightarrow> real list \<times> real list \<Rightarrow> real list \<times> real list" where
  "diffusion_pass self conductivity layer_thickness layer_volume N st =
     fold (diffuse_pair self conductivity layer_thickness layer_volume) [0..<N - 1] st"

text \<open>The three passes of an hour \<open>t > 0\<close> in their order: discharge, charge (with the
  per-layer loss and the lower clamp), diffusion. \<open>remaining_heat\<close> is \<open>Q_in[t] - Q_out[t]\<close>.\<close>

definition layer_passes ::
    "thermal_storage \<Rightarrow> nat \<Rightarrow> real \<Rightarrow> real \<Rightarrow> real \<Rightarrow> real list \<Rightarrow> real list \<Rightarrow> real
       \<Rightarrow> real list \<times> real list \<Rightarrow> real list \<times> real list" where
  "layer_passes self N conductivity layer_thickness layer_volume prev loss_layers remaining_heat st =
     (case st of (heat, row) \<Rightarrow>
        let discharged = fold (discharge_layer self layer_volume prev) [0..<N] (heat, row, remaining_heat);
            (heat2, row2, remaining2) =
               fold (charge_layer self layer_volume prev loss_layers) [0..<N] discharged
        in diffusion_pass self conductivity layer_thickness layer_volume N (heat2, row2))"

text \<open>The body of the loop of \<open>simulate_stratified\<close> at hour \<open>t\<close>, on the object and the local
  \<open>heat_stored_per_layer\<close>.\<close>

definition stratified_step ::
    "real list \<Rightarrow> real list \<Rightarrow> nat \<Rightarrow> real \<Rightarrow> real \<Rightarrow> real \<Rightarrow> nat
       \<Rightarrow> thermal_storage \<times> real list \<Rightarrow> error + (thermal_storage \<times> real list)" where
  "stratified_step Q_in Q_out N conductivity layer_thickness layer_volume t st =
     (case st of (self, heat) \<Rightarrow>
        and_then (py_get (T_sto_layers self) (int t - 1)) (\<lambda>prev.
        and_then (calculate_stratified_heat_loss self prev) (\<lambda>(loss_layers, total).
        and_then (py_set (Q_loss self) t total) (\<lambda>Ql.
        and_then (py_get Q_in (int t)) (\<lambda>q_in.
        and_then (py_get Q_out (int t)) (\<lambda>q_out.
        and_then
          (if t = 0 then
             and_then (py_get (T_sto self) (int t)) (\<lambda>T_0.
               let q_0 = volume self * rho self * cp self * (T_0 - T_ref self) / 3600000
               in and_then (py_set (Q_sto self) t q_0) (\<lambda>Qs.
                    Inr (Qs, replicate N (q_0 / real N), T_sto_layers self ! t)))
           else
             Inr (Q_sto self,
                  layer_passes self N conductivity layer_thickness layer_volume prev loss_layers
                    (q_in - q_out) (heat, T_sto_layers self ! t)))
          (\<lambda>(Qs, heat', row).
             and_then (py_set Qs t (sum_list heat')) (\<lambda>Qs'.
             and_then (py_set (T_sto self) t (sum_list row / real (length row))) (\<lambda>Ts.
               Inr (self\<lparr>Q_loss_layers := loss_layers, Q_loss := Ql, Q_sto := Qs', T_sto := Ts,
                          T_sto_layers := (T_sto_layers self)[t := row]\<rparr>, heat'))))))))))"

text \<open>The part of \<open>simulate_stratified\<close> before the loop: the layer thickness, the layer
  volume, and the allocation of \<open>T_sto_layers\<close> and \<open>heat_stored_per_layer\<close>; then the loop
  over the hours \<open>ts\<close>. The result is the object and the final \<open>heat_stored_per_layer\<close>.\<close>

definition stratified_run ::
    "thermal_storage \<Rightarrow> real list \<Rightarrow> real list \<Rightarrow> nat \<Rightarrow> real \<Rightarrow> nat list
       \<Rightarrow> error + (thermal_storage \<times> real list)" where
  "stratified_run self Q_in Q_out N conductivity ts =
     and_then
       (if storage_type self = ''cylindrical'' then dim_at self 1
        else if storage_type self = ''truncated_cone'' then dim_at self 2
        else if storage_type self = ''truncated_trapezoid'' then dim_at self 2
        else Inl (ValueError ''Unsupported storage type for layer thickness calculation''))
       (\<lambda>height.
          if N = 0 then Inl ZeroDivisionError
          else
            (let layer_thickness = height / real N;
                 layer_volume = volume self / real N
             in and_then (py_get (T_sto self) 0) (\<lambda>T_0.
                  run_steps (stratified_step Q_in Q_out N conductivity layer_thickness layer_volume) ts
                    (self\<lparr>T_sto_layers := replicate (hours self) (replicate N T_0)\<rparr>,
                     replicate N 0))))"

definition simulate_stratified ::
    "thermal_storage \<Rightarrow> real list \<Rightarrow> real list \<Rightarrow> nat \<Rightarrow> real
       \<Rightarrow> error + (thermal_storage \<times> real list)" where
  "simulate_stratified self Q_in Q_out N conductivity =
     stratified_run self Q_in Q_out N conductivity [0..<hours self]"

subsection \<open>Runs and example configurations\<close>

text \<open>A run: construct the object, then call one of the two simulators on it (the spec's
  \<open>run_single_node\<close> and \<open>run_stratified\<close>; the layer count and the conductivity are the
  arguments of \<open>simulate_stratified\<close>, not attributes of the object).\<close>

definition run_single_node :: "storage_params \<Rightarrow> real \<Rightarrow> real list \<Rightarrow> real list \<Rightarrow> error + trajectory" where
  "run_single_node p initial_temp Q_in Q_out =
     and_then (init p initial_temp) (\<lambda>self. simulate self Q_in Q_out)"

definition run_stratified ::
    "storage_params \<Rightarrow> real \<Rightarrow> real list \<Rightarrow> real list \<Rightarrow> nat \<Rightarrow> real
       \<Rightarrow> error + (thermal_storage \<times> real list)" where
  "run_stratified p initial_temp Q_in Q_out N conductivity =
     and_then (init p initial_temp) (\<lambda>self. simulate_stratified self Q_in Q_out N conductivity)"

text \<open>The parameter set of the script at the end of STES.py (a pit storage), over two hours,
  and the same materials around a plain cylinder of radius and height 25 m.\<close>

definition pit_params :: storage_params where
  "pit_params =
     \<lparr>storage_type = ''truncated_trapezoid'', dimensions = [20, 20, 50, 50, 15],
      rho = 1000, cp = 4180, T_ref = 10, lambda_top = 0.04, lambda_side = 0.03,
      lambda_bottom = 0.05, lambda_soil = 1.5, T_amb = 10, T_soil = 10, T_max = 95, T_min = 40,
      dt_top = 0.3, ds_side = 0.4, db_bottom = 0.5, hours = 2, num_layers = 5,
      thermal_conductivity = 0.6\<rparr>"

definition tank_params :: storage_params where
  "tank_params = pit_params\<lparr>storage_type := ''cylindrical'', dimensions := [25, 25]\<rparr>"

text \<open>The object that the constructor builds from \<open>tank_params\<close> and the initial
  temperature 60.\<close>

definition tank :: thermal_storage where
  "tank =
     \<lparr>storage_type = ''cylindrical'', dimensions = [25, 25],
      rho = 1000, cp = 4180, T_ref = 10, lambda_top = 0.04, lambda_side = 0.03,
      lambda_bottom = 0.05, lambda_soil = 1.5, T_amb = 10, T_soil = 10, T_max = 95, T_min = 40,
      dt_top = 0.3, ds_side = 0.4, db_bottom = 0.5, hours = 2, num_layers = 5,
      thermal_conductivity = 0.6,
      Q_sto = [0, 0], Q_loss = [0, 0], T_sto = [60, 0],
      volume = pi * 25 ^ 2 * 25, S_top = pi * 25 ^ 2, S_side = 2 * pi * 25 * 25,
      S_bottom = pi * 25 ^ 2, Q_loss_layers = [], T_sto_layers = []\<rparr>"

subsection \<open>The per-layer loss as the specification words it\<close>


definition K_sb :: "thermal_storage \<Rightarrow> real \<Rightarrow> real" where
  "K_sb self R = inverse (ds_side self / lambda_side self + 0.52 * R / lambda_soil self)"

definition S_c :: "real \<Rightarrow> real \<Rightarrow> real" where
  "S_c R H = pi * R ^ 2 + 2 * pi * R * H"

definition K_s :: "thermal_storage \<Rightarrow> real \<Rightarrow> real" where
  "K_s self H =
     (let a = ds_side self / lambda_side self + pi * H / (2 * lambda_soil self);
          b = pi / lambda_soil self
      in (1 / (b * H)) * ln ((a + b * H) / a))"

definition K_b :: "thermal_storage \<Rightarrow> real \<Rightarrow> real \<Rightarrow> real" where
  "K_b self H d1 =
     (let b = pi / lambda_soil self;
          c = db_bottom self / lambda_bottom self + pi * H / (2 * lambda_soil self)
      in (1 / (2 * b * d1)) * ln ((c + b * d1) / c))"

text \<open>The specification's words for \<open>per_layer_heat_loss\<close>, for a bottom coefficient and
  reference temperature and a side coefficient and reference temperature: layer 0 takes the
  top coefficient against ambient, the last layer the bottom coefficient against the bottom
  reference, every interior layer the side coefficient against the side reference over the
  side area divided by the layer count; all in kW.\<close>

definition spec_layer_loss ::
    "real \<Rightarrow> real \<Rightarrow> real \<Rightarrow> real \<Rightarrow> thermal_storage \<Rightarrow> nat \<Rightarrow> nat \<Rightarrow> real \<Rightarrow> real" where
  "spec_layer_loss K_bottom T_bottom K_side T_side self n i T_layer =
     (if i = 0 then (lambda_top self / dt_top self) * S_top self * (T_layer - T_amb self) / 1000
      else if i = n - 1 then K_bottom * S_bottom self * (T_layer - T_bottom) / 1000
      else K_side * (S_side self / real n) * (T_layer - T_side) / 1000)"

text \<open>The cylinder of \<open>tank\<close> with the tag of an underground cylinder (an attribute that a
  caller assigns after construction, since the constructor refuses the tag).\<close>

definition buried_tank :: thermal_storage where
  "buried_tank = tank\<lparr>storage_type := ''cylindrical_underground''\<rparr>"

text \<open>The object that the constructor builds from \<open>pit_params\<close> and an initial temperature,
  and the cylinder of \<open>tank\<close> with the tag of an overground cylinder.\<close>

definition pit :: "real \<Rightarrow> thermal_storage" where
  "pit initial_temp =
     \<lparr>storage_type = ''truncated_trapezoid'', dimensions = [20, 20, 50, 50, 15],
      rho = 1000, cp = 4180, T_ref = 10, lambda_top = 0.04, lambda_side = 0.03,
      lambda_bottom = 0.05, lambda_soil = 1.5, T_amb = 10, T_soil = 10, T_max = 95, T_min = 40,
      dt_top = 0.3, ds_side = 0.4, db_bottom = 0.5, hours = 2, num_layers = 5,
      thermal_conductivity = 0.6,
      Q_sto = [0, 0], Q_loss = [0, 0], T_sto = [initial_temp, 0],
      volume = 19500, S_top = 400, S_side = 140 * sqrt 1125,
      S_bottom = 2500, Q_loss_layers = [], T_sto_layers = []\<rparr>"


text \<open>The underground cylinder with a side insulation of 0.3 m, below twice the minimum
  thickness \<open>2 * (0.03 / 1.5) * 25 * 0.37 = 0.37\<close> m, as constructor arguments and as an object.\<close>

definition thin_buried_params :: storage_params where
  "thin_buried_params =
     tank_params\<lparr>storage_type := ''cylindrical_underground'', ds_side := 0.3\<rparr>"

definition thin_buried_tank :: thermal_storage where
  "thin_buried_tank = buried_tank\<lparr>ds_side := 0.3\<rparr>"

text \<open>The pit storage in soil of 0 degrees, started at 0 degrees, with the lower clamp
  out of reach: the object that the constructor builds from these arguments.\<close>

definition cold_pit :: thermal_storage where
  "cold_pit = (pit 0)\<lparr>T_soil := 0, T_min := - 10\<rparr>"

text \<open>The value that hour \<open>t\<close> of \<open>simulate\<close> stores in \<open>Q_sto[t]\<close>, from the arrays \<open>tr\<close> it
  starts on and the loss \<open>loss\<close> it has just stored in \<open>Q_loss[t]\<close>.\<close>

definition Q_sto_next :: "thermal_storage \<Rightarrow> real list \<Rightarrow> real list \<Rightarrow> nat \<Rightarrow> trajectory \<Rightarrow> cell \<Rightarrow> cell" where
  "Q_sto_next self Q_in Q_out t tr loss =
     (if t = 0 then
        map_option (\<lambda>T. volume self * rho self * cp self * (T - T_ref self) / 3600000) (T_sto_cells tr ! 0)
      else
        (case (Q_sto_cells tr ! (t - 1), loss) of
           (Some q, Some l) \<Rightarrow> Some (q + (Q_in ! t - Q_out ! t - l))
         | _ \<Rightarrow> None))"

text \<open>The pit storage of \<open>pit_params\<close> over a horizon of one hour, started at 60 degrees: the
  constructor's arguments and the object it builds.\<close>

definition one_hour_params :: storage_params where
  "one_hour_params = pit_params\<lparr>hours := 1\<rparr>"

definition one_hour_pit :: thermal_storage where
  "one_hour_pit = (pit 60)\<lparr>hours := 1, Q_sto := [0], Q_loss := [0], T_sto := [60]\<rparr>"

text \<open>The clamp at the end of an hour of \<open>simulate\<close>, on a cell: \<open>nan\<close> passes both
  comparisons unchanged.\<close>

definition clamp_cell :: "thermal_storage \<Rightarrow> cell \<Rightarrow> cell" where
  "clamp_cell self c =
     (case c of
        None \<Rightarrow> None
      | Some T \<Rightarrow> Some (if T > T_max self then T_max self else if T < T_min self then T_min self else T))"

section \<open>Properties\<close>

lemma and_then_Inl [simp]: "and_then (Inl e) f = Inl e"
  by (simp add: and_then_def)

lemma and_then_Inr [simp]: "and_then (Inr x) f = f x"
  by (simp add: and_then_def)

lemma and_then_eq_Inr: "and_then r f = Inr y \<longleftrightarrow> (\<exists>x. r = Inr x \<and> f x = Inr y)"
  by (cases r) simp_all

subsection \<open>Geometry construction\<close>

text \<open>C3. The claim: geometry construction succeeds for each of the five storage-type tags
  and fails exactly on the other tags. The constructor's dispatch knows three tags only:
  for \<open>cylindrical_overground\<close> and \<open>cylindrical_underground\<close>, which both heat-loss methods
  handle, it raises \<open>ValueError("Unsupported storage type")\<close> whatever the dimensions are,
  and so does the constructor for any positive number of hours.\<close>

theorem compute_geometry_rejects_two_cylinder_tags:
  "compute_geometry ''cylindrical_overground'' [25, 25] = Inl (ValueError ''Unsupported storage type'')
   \<and> compute_geometry ''cylindrical_underground'' [25, 25] = Inl (ValueError ''Unsupported storage type'')
   \<and> init (pit_params\<lparr>storage_type := ''cylindrical_overground'', dimensions := [25, 25]\<rparr>) 60
       = Inl (ValueError ''Unsupported storage type'')"
  by (simp add: compute_geometry_def init_def pit_params_def py_set_def)

lemma init_tank: "init tank_params 60 = Inr tank"
  by (simp add: init_def tank_params_def pit_params_def tank_def py_set_def compute_geometry_def
      calculate_cylindrical_geometry_def numeral_2_eq_2)

subsection \<open>The diffusion pass\<close>

lemma sum_list_update_real:
  "k < length xs \<Longrightarrow> sum_list (xs[k := x]) = sum_list xs - xs ! k + (x::real)"
proof (induction xs arbitrary: k)
  case Nil
  then show ?case by simp
next
  case (Cons a xs)
  then show ?case by (cases k) simp_all
qed

lemma diffuse_pair_heat:
  "fst (diffuse_pair self k lt lv i (heat, row)) =
     (heat[i := heat ! i - heat_transfer_kWh self k lt row i])
       [i + 1 := (heat[i := heat ! i - heat_transfer_kWh self k lt row i]) ! (i + 1) + heat_transfer_kWh self k lt row i]"
  by (simp only: diffuse_pair_def Let_def prod.case fst_conv heat_transfer_kWh_def)

lemma diffuse_pair_length:
  "length (fst (diffuse_pair self k lt lv i st)) = length (fst st)"
  by (cases st) (simp add: diffuse_pair_def Let_def)

lemma diffuse_pair_sum:
  assumes "i + 1 < length (fst st)"
  shows "sum_list (fst (diffuse_pair self k lt lv i st)) = sum_list (fst st)"
proof -
  obtain heat row where st: "st = (heat, row)" by (cases st)
  from assms st have i: "i < length heat" "i + 1 < length heat" by simp_all
  show ?thesis
    using i by (simp add: st diffuse_pair_heat sum_list_update_real)
qed

lemma diffusion_fold:
  "n < length (fst st) \<Longrightarrow>
     sum_list (fst (fold (diffuse_pair self k lt lv) [0..<n] st)) = sum_list (fst st)
     \<and> length (fst (fold (diffuse_pair self k lt lv) [0..<n] st)) = length (fst st)"
proof (induction n)
  case 0
  then show ?case by simp
next
  case (Suc n)
  then have IH: "sum_list (fst (fold (diffuse_pair self k lt lv) [0..<n] st)) = sum_list (fst st)"
      "length (fst (fold (diffuse_pair self k lt lv) [0..<n] st)) = length (fst st)"
    by simp_all
  from Suc.prems IH(2) have "n + 1 < length (fst (fold (diffuse_pair self k lt lv) [0..<n] st))"
    by simp
  from diffuse_pair_sum[OF this] IH show ?case
    by (simp add: diffuse_pair_length)
qed

text \<open>C2. The diffusion pass of \<open>simulate_stratified\<close> over \<open>heat_stored_per_layer\<close> leaves
  the sum of the per-layer energies unchanged, and each of its iterations, from whatever
  state it starts, takes the amount \<open>heat_transfer_kWh\<close> from layer \<open>i\<close>, adds the same amount
  to layer \<open>i + 1\<close> and leaves every other layer's energy alone.\<close>

theorem diffusion_pass_conserves_energy:
  "sum_list (fst (diffusion_pass self k lt lv (length heat) (heat, row))) = sum_list heat
   \<and> (\<forall>i. i + 1 < length heat \<longrightarrow>
        (let heat' = fst (diffuse_pair self k lt lv i (heat, row))
         in heat' ! i = heat ! i - heat_transfer_kWh self k lt row i
            \<and> heat' ! (i + 1) = heat ! (i + 1) + heat_transfer_kWh self k lt row i
            \<and> (\<forall>j. j \<noteq> i \<and> j \<noteq> i + 1 \<longrightarrow> heat' ! j = heat ! j)))"
proof (intro conjI allI impI)
  show "sum_list (fst (diffusion_pass self k lt lv (length heat) (heat, row))) = sum_list heat"
  proof (cases "length heat")
    case 0
    then show ?thesis by (simp add: diffusion_pass_def)
  next
    case (Suc m)
    then have "m < length (fst (heat, row))" by simp
    from diffusion_fold[OF this] Suc show ?thesis
      by (simp add: diffusion_pass_def)
  qed
next
  fix i assume "i + 1 < length heat"
  then show "let heat' = fst (diffuse_pair self k lt lv i (heat, row))
         in heat' ! i = heat ! i - heat_transfer_kWh self k lt row i
            \<and> heat' ! (i + 1) = heat ! (i + 1) + heat_transfer_kWh self k lt row i
            \<and> (\<forall>j. j \<noteq> i \<and> j \<noteq> i + 1 \<longrightarrow> heat' ! j = heat ! j)"
    by (simp add: diffuse_pair_heat Let_def)
qed

theorem diffusion_pass_conserves_energy_witness:
  "sum_list (fst (diffusion_pass tank 2 5 100 3 ([100, 200, 300], [50, 40, 60]))) = 600
   \<and> fst (diffuse_pair tank 2 5 100 0 ([100, 200, 300], [50, 40, 60])) ! 0 = 100 - 5 * pi
   \<and> fst (diffuse_pair tank 2 5 100 0 ([100, 200, 300], [50, 40, 60])) ! 1 = 200 + 5 * pi
   \<and> fst (diffuse_pair tank 2 5 100 0 ([100, 200, 300], [50, 40, 60])) ! 2 = 300"
proof -
  let ?heat = "[100, 200, 300] :: real list"
  let ?row = "[50, 40, 60] :: real list"
  have len: "length ?heat = 3"
    by simp
  have moved: "heat_transfer_kWh tank 2 5 ?row 0 = 5 * pi"
    by (simp add: heat_transfer_kWh_def tank_def)
  note inst = diffusion_pass_conserves_energy [of tank 2 5 100 ?heat ?row]
  from inst have "sum_list (fst (diffusion_pass tank 2 5 100 (length ?heat) (?heat, ?row))) = sum_list ?heat"
    by (rule conjunct1)
  then have total: "sum_list (fst (diffusion_pass tank 2 5 100 3 (?heat, ?row))) = 600"
    by (simp only: len) simp
  from inst have "0 + 1 < length ?heat \<longrightarrow>
      (let heat' = fst (diffuse_pair tank 2 5 100 0 (?heat, ?row))
       in heat' ! 0 = ?heat ! 0 - heat_transfer_kWh tank 2 5 ?row 0
          \<and> heat' ! (0 + 1) = ?heat ! (0 + 1) + heat_transfer_kWh tank 2 5 ?row 0
          \<and> (\<forall>j. j \<noteq> 0 \<and> j \<noteq> 0 + 1 \<longrightarrow> heat' ! j = ?heat ! j))"
    by blast
  then have pair: "fst (diffuse_pair tank 2 5 100 0 (?heat, ?row)) ! 0 = 100 - 5 * pi"
      "fst (diffuse_pair tank 2 5 100 0 (?heat, ?row)) ! 1 = 200 + 5 * pi"
      "fst (diffuse_pair tank 2 5 100 0 (?heat, ?row)) ! 2 = 300"
    by (simp_all add: Let_def moved)
  from total pair show ?thesis
    by simp
qed

subsection \<open>The per-layer heat loss\<close>

lemma py_get_nat: "k < length xs \<Longrightarrow> py_get xs (int k) = Inr (xs ! k)"
  by (simp add: py_get_def)




lemma layer_loss_pit:
  assumes "storage_type self = ''truncated_cone'' \<or> storage_type self = ''truncated_trapezoid''"
    "dimensions self = d0 # d1 # H # ds"
  shows "layer_loss self n i T =
     Inr (spec_layer_loss (K_b self H d1) (T_soil self) (K_s self H) (T_soil self) self n i T)"
  using assms
  by (auto simp add: layer_loss_def spec_layer_loss_def K_b_def K_s_def dim_at_def py_get_def Let_def)



lemma sqrt_million: "sqrt 1000000 = 1000"
  by (rule real_sqrt_unique) simp_all

lemma init_pit: "init pit_params T0 = Inr (pit T0)"
  by (simp add: init_def pit_params_def pit_def py_set_def compute_geometry_def
      calculate_truncated_trapezoid_geometry_def numeral_2_eq_2 Let_def sqrt_million)






subsection \<open>The underground validity check\<close>

lemma init_rejects_underground:
  assumes "storage_type p = ''cylindrical_underground''" "0 < hours p"
  shows "init p T0 = Inl (ValueError ''Unsupported storage type'')"
  using assms by (simp add: init_def py_set_def compute_geometry_def)

lemma heat_loss_thin_underground:
  assumes "storage_type self = ''cylindrical_underground''" "2 \<le> length (dimensions self)"
    "ds_side self \<le> 2 * ((lambda_side self / lambda_soil self) * (dimensions self ! 0) * 0.37)"
  shows "calculate_heat_loss self T =
           Inl (ValueError ''Insulation thickness too small compared to minimum required thickness.'')"
proof -
  from assms(2) obtain R H ds where d: "dimensions self = R # H # ds"
    by (cases "dimensions self"; cases "tl (dimensions self)") auto
  with assms(3) have "\<not> ds_side self > 2 * ((lambda_side self / lambda_soil self) * R * 0.37)"
    by simp
  with assms(1) d show ?thesis
    by (simp add: calculate_heat_loss_def dim_at_def py_get_def Let_def)
qed

lemma py_get_last: "xs \<noteq> [] \<Longrightarrow> py_get xs (- 1) = Inr (last xs)"
  by (cases xs rule: rev_cases) (simp_all add: py_get_def nat_add_distrib)

lemma simulate_step_raises:
  assumes "\<And>T. calculate_heat_loss self T = Inl e" "T_sto_cells tr \<noteq> []"
  shows "simulate_step self Q_in Q_out 0 tr = Inl e"
proof -
  from assms(2) have "py_get (T_sto_cells tr) (int 0 - 1) = Inr (last (T_sto_cells tr))"
    by (simp add: py_get_last)
  moreover have "heat_loss_cell self c = Inl e" for c
    by (cases c) (simp_all add: heat_loss_cell_def assms(1))
  ultimately show ?thesis
    by (simp add: simulate_step_def)
qed

lemma simulate_raises_at_first_step:
  assumes "\<And>T. calculate_heat_loss self T = Inl e" "T_sto self \<noteq> []" "0 < hours self"
  shows "simulate self Q_in Q_out = Inl e"
proof -
  from assms(3) have "[0..<hours self] = 0 # [1..<hours self]"
    by (simp add: upt_conv_Cons)
  with assms(1,2) show ?thesis
    by (simp add: simulate_def simulate_run_def simulate_step_raises)
qed

lemma stratified_rejects_underground:
  assumes "storage_type self = ''cylindrical_underground''"
  shows "simulate_stratified self Q_in Q_out N k =
     Inl (ValueError ''Unsupported storage type for layer thickness calculation'')"
  using assms by (simp add: simulate_stratified_def stratified_run_def)

text \<open>C7. An underground cylinder whose side insulation is at most twice the minimum
  thickness \<open>d_min = (lambda_side / lambda_soil) * R * 0.37\<close> never reaches a simulation step.
  A run, which starts with the constructor, already stops there with a \<open>ValueError\<close> for the
  tag (whatever the insulation is, for at least one hour). On an object that carries the tag
  all the same, the lumped heat loss raises the \<open>ValueError\<close> of the thickness check for every
  temperature, so \<open>simulate\<close> raises it in its first statement, before any array is written,
  and \<open>simulate_stratified\<close> raises before its loop. The \<open>Inl\<close> carries no arrays: no partial
  result.\<close>

theorem underground_thin_insulation_never_steps:
  "(storage_type p = ''cylindrical_underground'' \<and> 0 < hours p \<longrightarrow>
      run_single_node p T0 Q_in Q_out = Inl (ValueError ''Unsupported storage type'')
      \<and> run_stratified p T0 Q_in Q_out N k = Inl (ValueError ''Unsupported storage type''))
   \<and> (storage_type self = ''cylindrical_underground'' \<and> 2 \<le> length (dimensions self)
        \<and> ds_side self \<le> 2 * ((lambda_side self / lambda_soil self) * (dimensions self ! 0) * 0.37) \<longrightarrow>
      calculate_heat_loss self T =
        Inl (ValueError ''Insulation thickness too small compared to minimum required thickness.'')
      \<and> (T_sto self \<noteq> [] \<and> 0 < hours self \<longrightarrow>
           simulate self Q_in Q_out =
             Inl (ValueError ''Insulation thickness too small compared to minimum required thickness.''))
      \<and> simulate_stratified self Q_in Q_out N k =
           Inl (ValueError ''Unsupported storage type for layer thickness calculation''))"
  by (simp add: run_single_node_def run_stratified_def init_rejects_underground
        heat_loss_thin_underground simulate_raises_at_first_step stratified_rejects_underground)

theorem underground_thin_insulation_never_steps_witness:
  "run_single_node thin_buried_params 60 [450, 450] [100, 100] = Inl (ValueError ''Unsupported storage type'')
   \<and> run_stratified thin_buried_params 60 [450, 450] [100, 100] 5 (6 / 10) = Inl (ValueError ''Unsupported storage type'')
   \<and> calculate_heat_loss thin_buried_tank 60 =
        Inl (ValueError ''Insulation thickness too small compared to minimum required thickness.'')
   \<and> simulate thin_buried_tank [450, 450] [100, 100] =
        Inl (ValueError ''Insulation thickness too small compared to minimum required thickness.'')
   \<and> simulate_stratified thin_buried_tank [450, 450] [100, 100] 5 (6 / 10) =
        Inl (ValueError ''Unsupported storage type for layer thickness calculation'')"
proof -
  have p: "storage_type thin_buried_params = ''cylindrical_underground'' \<and> 0 < hours thin_buried_params"
    by (simp add: thin_buried_params_def tank_params_def pit_params_def)
  have s: "storage_type thin_buried_tank = ''cylindrical_underground'' \<and> 2 \<le> length (dimensions thin_buried_tank)
        \<and> ds_side thin_buried_tank \<le> 2 * ((lambda_side thin_buried_tank / lambda_soil thin_buried_tank) * (dimensions thin_buried_tank ! 0) * 0.37)"
    by (simp add: thin_buried_tank_def buried_tank_def tank_def)
  have r: "T_sto thin_buried_tank \<noteq> [] \<and> 0 < hours thin_buried_tank"
    by (simp add: thin_buried_tank_def buried_tank_def tank_def)
  from p s r
    underground_thin_insulation_never_steps
      [of thin_buried_params 60 "[450, 450]" "[100, 100]" 5 "6 / 10" thin_buried_tank 60]
  show ?thesis
    by blast
qed

subsection \<open>The single-node simulator, hour by hour\<close>

lemma run_steps_append:
  "run_steps f (xs @ ys) s = and_then (run_steps f xs s) (run_steps f ys)"
proof (induction xs arbitrary: s)
  case Nil
  then show ?case by simp
next
  case (Cons t xs)
  then show ?case by (cases "f t s") simp_all
qed

lemma py_get_Inr_nat:
  "py_get xs (int t) = Inr v \<longleftrightarrow> t < length xs \<and> v = xs ! t"
  by (auto simp: py_get_def)

lemma py_set_Inr:
  "py_set xs t v = Inr ys \<longleftrightarrow> t < length xs \<and> ys = xs[t := v]"
  by (auto simp: py_set_def)

lemma py_get_pred:
  "0 < t \<Longrightarrow> py_get xs (int t - 1) = Inr v \<longleftrightarrow> t - 1 < length xs \<and> v = xs ! (t - 1)"
  by (cases t) (auto simp: py_get_def)

lemma simulate_step_Inr:
  assumes "simulate_step self Q_in Q_out t tr = Inr tr'"
  shows "\<exists>T_prev loss v.
           py_get (T_sto_cells tr) (int t - 1) = Inr T_prev
         \<and> heat_loss_cell self T_prev = Inr loss
         \<and> t < length (Q_loss_cells tr) \<and> t < length (Q_sto_cells tr) \<and> t < length (T_sto_cells tr)
         \<and> (0 < t \<longrightarrow> t < length Q_in \<and> t < length Q_out)
         \<and> Q_loss_cells tr' = (Q_loss_cells tr)[t := loss]
         \<and> Q_sto_cells tr' = (Q_sto_cells tr)[t := Q_sto_next self Q_in Q_out t tr loss]
         \<and> T_sto_cells tr' = (T_sto_cells tr)[t := v]"
proof (cases "t = 0")
  case True
  with assms show ?thesis
    apply (simp add: simulate_step_def and_then_eq_Inr py_get_Inr_nat py_set_Inr Q_sto_next_def)
    apply (elim exE conjE)
    apply (auto simp:  py_get_Inr_nat [of _ 0, simplified] split: option.splits if_splits)
    apply (metis list_update_id)+
    done
next
  case False
  with assms show ?thesis
    apply (simp add: simulate_step_def and_then_eq_Inr py_get_Inr_nat py_set_Inr Q_sto_next_def py_get_pred Let_def)
    apply (elim exE conjE)
    apply (auto simp: py_get_Inr_nat  split: option.splits if_splits prod.splits)
    done
qed


lemma run_steps_split:
  assumes "run_steps f [0..<h] s = Inr s'" "t < h"
  shows "\<exists>s1 s2. run_steps f [0..<t] s = Inr s1 \<and> f t s1 = Inr s2 \<and> run_steps f [Suc t..<h] s2 = Inr s'"
proof -
  from assms(2) have "[0..<t + (h - t)] = [0..<t] @ [t..<t + (h - t)]"
    by (intro upt_add_eq_append) simp
  with assms(2) have "[0..<h] = [0..<t] @ t # [Suc t..<h]"
    by (simp add: upt_conv_Cons)
  with assms(1) show ?thesis
    by (auto simp: run_steps_append and_then_eq_Inr)
qed

lemma simulate_frame:
  assumes "run_steps (simulate_step self Q_in Q_out) ts tr = Inr tr'" "j \<notin> set ts"
  shows "Q_loss_cells tr' ! j = Q_loss_cells tr ! j \<and> Q_sto_cells tr' ! j = Q_sto_cells tr ! j
         \<and> T_sto_cells tr' ! j = T_sto_cells tr ! j"
  using assms
proof (induction ts arbitrary: tr)
  case Nil
  then show ?case by simp
next
  case (Cons t ts)
  from Cons.prems(1) obtain tr1 where step: "simulate_step self Q_in Q_out t tr = Inr tr1"
    and rest: "run_steps (simulate_step self Q_in Q_out) ts tr1 = Inr tr'"
    by (auto simp: and_then_eq_Inr)
  from Cons.prems(2) have "j \<noteq> t" "j \<notin> set ts" by auto
  from simulate_step_Inr [OF step] \<open>j \<noteq> t\<close>
  have "Q_loss_cells tr1 ! j = Q_loss_cells tr ! j \<and> Q_sto_cells tr1 ! j = Q_sto_cells tr ! j
         \<and> T_sto_cells tr1 ! j = T_sto_cells tr ! j"
    by auto
  with Cons.IH [OF rest \<open>j \<notin> set ts\<close>] show ?case by simp
qed

text \<open>What hour \<open>t\<close> leaves in the final arrays, in terms of the state it started from.\<close>

lemma simulate_hour:
  assumes "run_steps (simulate_step self Q_in Q_out) [0..<h] tr = Inr tr'" "t < h"
  shows "\<exists>s1 T_prev.
           run_steps (simulate_step self Q_in Q_out) [0..<t] tr = Inr s1
         \<and> py_get (T_sto_cells s1) (int t - 1) = Inr T_prev
         \<and> heat_loss_cell self T_prev = Inr (Q_loss_cells tr' ! t)
         \<and> t < length (Q_loss_cells s1) \<and> t < length (Q_sto_cells s1) \<and> t < length (T_sto_cells s1)
         \<and> (0 < t \<longrightarrow> t < length Q_in \<and> t < length Q_out)
         \<and> Q_sto_cells tr' ! t = Q_sto_next self Q_in Q_out t s1 (Q_loss_cells tr' ! t)
         \<and> (\<forall>j<t. Q_loss_cells tr' ! j = Q_loss_cells s1 ! j \<and> Q_sto_cells tr' ! j = Q_sto_cells s1 ! j
                  \<and> T_sto_cells tr' ! j = T_sto_cells s1 ! j)"
proof -
  from run_steps_split [OF assms] obtain s1 s2
    where pre: "run_steps (simulate_step self Q_in Q_out) [0..<t] tr = Inr s1"
      and step: "simulate_step self Q_in Q_out t s1 = Inr s2"
      and post: "run_steps (simulate_step self Q_in Q_out) [Suc t..<h] s2 = Inr tr'"
    by blast
  from simulate_step_Inr [OF step] obtain T_prev loss v
    where st: "py_get (T_sto_cells s1) (int t - 1) = Inr T_prev" "heat_loss_cell self T_prev = Inr loss"
      "t < length (Q_loss_cells s1)" "t < length (Q_sto_cells s1)" "t < length (T_sto_cells s1)"
      "0 < t \<longrightarrow> t < length Q_in \<and> t < length Q_out"
      "Q_loss_cells s2 = (Q_loss_cells s1)[t := loss]"
      "Q_sto_cells s2 = (Q_sto_cells s1)[t := Q_sto_next self Q_in Q_out t s1 loss]"
      "T_sto_cells s2 = (T_sto_cells s1)[t := v]"
    by blast
  have later: "Q_loss_cells tr' ! j = Q_loss_cells s2 ! j \<and> Q_sto_cells tr' ! j = Q_sto_cells s2 ! j
         \<and> T_sto_cells tr' ! j = T_sto_cells s2 ! j" if "j \<le> t" for j
    using simulate_frame [OF post, of j] that by simp
  from later [of t] st have "Q_loss_cells tr' ! t = loss"
    "Q_sto_cells tr' ! t = Q_sto_next self Q_in Q_out t s1 loss"
    by simp_all
  moreover have "\<forall>j<t. Q_loss_cells tr' ! j = Q_loss_cells s1 ! j \<and> Q_sto_cells tr' ! j = Q_sto_cells s1 ! j
                  \<and> T_sto_cells tr' ! j = T_sto_cells s1 ! j"
    using later st by simp
  ultimately show ?thesis
    using pre st by blast
qed


lemma simulate_Q_sto_defined:
  assumes run: "simulate self Q_in Q_out = Inr tr"
    and zero: "\<forall>s<hours self. Q_loss_cells tr ! s = Some 0"
  shows "t < hours self \<Longrightarrow> \<exists>a. Q_sto_cells tr ! t = Some a"
proof (induction t)
  case 0
  from run have r: "run_steps (simulate_step self Q_in Q_out) [0..<hours self]
      \<lparr>Q_sto_cells = map Some (Q_sto self), Q_loss_cells = map Some (Q_loss self),
       T_sto_cells = map Some (T_sto self)\<rparr> = Inr tr"
    by (simp add: simulate_def simulate_run_def)
  from simulate_hour [OF r 0]
  have "Q_sto_cells tr ! 0 =
      Some (volume self * rho self * cp self * (T_sto self ! 0 - T_ref self) / 3600000)"
    by (auto simp: Q_sto_next_def)
  then show ?case
    by blast
next
  case (Suc t)
  from run have r: "run_steps (simulate_step self Q_in Q_out) [0..<hours self]
      \<lparr>Q_sto_cells = map Some (Q_sto self), Q_loss_cells = map Some (Q_loss self),
       T_sto_cells = map Some (T_sto self)\<rparr> = Inr tr"
    by (simp add: simulate_def simulate_run_def)
  from Suc obtain b where b: "Q_sto_cells tr ! t = Some b"
    by auto
  from zero Suc.prems have l: "Q_loss_cells tr ! Suc t = Some 0"
    by simp
  from simulate_hour [OF r Suc.prems] b l
  have "Q_sto_cells tr ! Suc t = Some (b + (Q_in ! Suc t - Q_out ! Suc t - 0))"
    by (auto simp: Q_sto_next_def)
  then show ?case
    by blast
qed

text \<open>C6. When \<open>simulate\<close> returns and every stored heat loss is zero, the stored energy of
  every hour \<open>t > 0\<close> is a number and exceeds that of the hour before by exactly
  \<open>Q_in[t] - Q_out[t]\<close> (in exact arithmetic). The clamps need not be disabled: they change
  \<open>T_sto\<close> only, never \<open>Q_sto\<close>.\<close>

theorem single_node_energy_balance:
  assumes "simulate self Q_in Q_out = Inr tr"
    and "\<forall>s<hours self. Q_loss_cells tr ! s = Some 0"
    and "0 < t" and "t < hours self"
  shows "\<exists>a b. Q_sto_cells tr ! t = Some a \<and> Q_sto_cells tr ! (t - 1) = Some b
           \<and> a - b = Q_in ! t - Q_out ! t"
proof -
  from assms(1) have r: "run_steps (simulate_step self Q_in Q_out) [0..<hours self]
      \<lparr>Q_sto_cells = map Some (Q_sto self), Q_loss_cells = map Some (Q_loss self),
       T_sto_cells = map Some (T_sto self)\<rparr> = Inr tr"
    by (simp add: simulate_def simulate_run_def)
  from assms(3,4) have "t - 1 < hours self"
    by simp
  from simulate_Q_sto_defined [OF assms(1,2) this] obtain b where b: "Q_sto_cells tr ! (t - 1) = Some b"
    by blast
  from assms(2,4) have l: "Q_loss_cells tr ! t = Some 0"
    by simp
  from simulate_hour [OF r assms(4)] assms(3) b l
  have "Q_sto_cells tr ! t = Some (b + (Q_in ! t - Q_out ! t - 0))"
    by (auto simp: Q_sto_next_def)
  with b show ?thesis
    by simp
qed

lemma init_cold_pit: "init (pit_params\<lparr>T_soil := 0, T_min := - 10\<rparr>) 0 = Inr cold_pit"
  by (simp add: init_pit [unfolded pit_params_def pit_def] init_def pit_params_def cold_pit_def pit_def
        py_set_def compute_geometry_def calculate_truncated_trapezoid_geometry_def numeral_2_eq_2
        Let_def sqrt_million)

lemma cold_pit_loss: "calculate_heat_loss cold_pit 0 = Inr (Some 0)"
  by (simp add: calculate_heat_loss_def cold_pit_def pit_def dim_at_def py_get_def Let_def)

lemma cold_pit_fields:
  "hours cold_pit = 2" "Q_sto cold_pit = [0, 0]" "Q_loss cold_pit = [0, 0]" "T_sto cold_pit = [0, 0]"
  "volume cold_pit = 19500" "rho cold_pit = 1000" "cp cold_pit = 4180" "T_ref cold_pit = 10"
  "T_max cold_pit = 95" "T_min cold_pit = - 10"
  by (simp_all add: cold_pit_def pit_def)

lemma cold_pit_run:
  "simulate cold_pit [450, 450] [100, 100]
     = Inr \<lparr>Q_sto_cells = [Some (- 679250 / 3), Some (- 678200 / 3)],
            Q_loss_cells = [Some 0, Some 0],
            T_sto_cells = [Some 0, Some (42 / 2717)]\<rparr>"
  by (simp add: simulate_def simulate_run_def upt_conv_Cons simulate_step_def heat_loss_cell_def
        cold_pit_loss cold_pit_fields py_get_def py_set_def)

theorem single_node_energy_balance_witness:
  "\<exists>tr a b. simulate cold_pit [450, 450] [100, 100] = Inr tr
     \<and> Q_sto_cells tr ! 1 = Some a \<and> Q_sto_cells tr ! (1 - 1) = Some b \<and> a - b = 450 - 100"
proof -
  let ?tr = "\<lparr>Q_sto_cells = [Some (- 679250 / 3), Some (- 678200 / 3)],
            Q_loss_cells = [Some 0, Some 0],
            T_sto_cells = [Some 0, Some (42 / 2717 :: real)]\<rparr>"
  have zero: "\<forall>s<hours cold_pit. Q_loss_cells ?tr ! s = Some 0"
    by (simp add: cold_pit_def pit_def less_Suc_eq numeral_2_eq_2)
  have t: "(0::nat) < 1" "1 < hours cold_pit"
    by (simp_all add: cold_pit_def pit_def)
  from single_node_energy_balance [OF cold_pit_run zero t]
  obtain a b where "Q_sto_cells ?tr ! 1 = Some a" "Q_sto_cells ?tr ! (1 - 1) = Some b"
      "a - b = [450, 450] ! 1 - [100, 100] ! 1"
    by blast
  with cold_pit_run show ?thesis
    by auto
qed

subsection \<open>The heat loss of hour 0 in the single-node simulator\<close>

lemma init_Inr:
  assumes "init p T0 = Inr self"
  shows "hours self = hours p" "T_sto self = (replicate (hours p) 0)[0 := T0]" "0 < hours p"
    "Q_sto self = replicate (hours p) 0" "Q_loss self = replicate (hours p) 0"
    "storage_type self = storage_type p"
  using assms
  by (auto simp: init_def and_then_eq_Inr py_set_Inr)

lemma pit_heat_loss:
  assumes "storage_type self = ''truncated_cone'' \<or> storage_type self = ''truncated_trapezoid''"
    "dimensions self = d0 # d1 # H # ds"
  shows "calculate_heat_loss self T =
     Inr (Some (((T - T_soil self) * K_s self H * S_side self
                 + (T - T_soil self) * K_b self H d1 * S_bottom self) / 1000))"
  using assms
  by (auto simp: calculate_heat_loss_def K_s_def K_b_def dim_at_def py_get_def Let_def)

lemma log_coefficient_positive:
  fixes a x y :: real
  assumes "0 < a" "0 < x" "0 < y"
  shows "0 < (1 / y) * ln ((a + x) / a)"
proof -
  from assms have "(a + x) / a = 1 + x / a"
    by (simp add: add_divide_distrib)
  moreover from assms have "0 < x / a"
    by simp
  ultimately have "1 < (a + x) / a"
    by simp
  then have "0 < ln ((a + x) / a)"
    by simp
  with assms(3) show ?thesis
    by simp
qed

lemma K_s_positive:
  assumes "0 < ds_side self" "0 < lambda_side self" "0 < lambda_soil self" "0 < H"
  shows "0 < K_s self H"
proof -
  let ?a = "ds_side self / lambda_side self + pi * H / (2 * lambda_soil self)"
  let ?b = "pi / lambda_soil self"
  from assms have a: "0 < ?a"
    by (intro add_pos_pos divide_pos_pos mult_pos_pos) simp_all
  from assms have b: "0 < ?b * H"
    by (intro mult_pos_pos divide_pos_pos) simp_all
  from log_coefficient_positive [OF a b b] show ?thesis
    by (simp only: K_s_def Let_def)
qed

lemma K_b_positive:
  assumes "0 < db_bottom self" "0 < lambda_bottom self" "0 < lambda_soil self" "0 < H" "0 < d1"
  shows "0 < K_b self H d1"
proof -
  let ?c = "db_bottom self / lambda_bottom self + pi * H / (2 * lambda_soil self)"
  let ?b = "pi / lambda_soil self"
  from assms have c: "0 < ?c"
    by (intro add_pos_pos divide_pos_pos mult_pos_pos) simp_all
  from assms have b: "0 < ?b * d1"
    by (intro mult_pos_pos divide_pos_pos) simp_all
  from assms have b2: "0 < 2 * ?b * d1"
    by (intro mult_pos_pos divide_pos_pos) simp_all
  from log_coefficient_positive [OF c b b2] show ?thesis
    by (simp only: K_b_def Let_def)
qed

text \<open>C10, as amended. In a run of the single-node simulator on a freshly constructed object
  with a horizon of at least two hours, \<open>T_sto[t-1]\<close> at \<open>t = 0\<close> is the last element of
  \<open>T_sto\<close>, still the 0 of \<open>np.zeros\<close>: the value stored in \<open>Q_loss[0]\<close> is what
  \<open>calculate_heat_loss\<close> returns at temperature 0, whatever the initial temperature is.\<close>

theorem hour_zero_loss_of_fresh_run:
  assumes "init p initial_temp = Inr self" and "2 \<le> hours p"
    and "simulate self Q_in Q_out = Inr tr"
  shows "calculate_heat_loss self 0 = Inr (Q_loss_cells tr ! 0)"
proof -
  from assms(3) have r: "run_steps (simulate_step self Q_in Q_out) [0..<hours self]
      \<lparr>Q_sto_cells = map Some (Q_sto self), Q_loss_cells = map Some (Q_loss self),
       T_sto_cells = map Some (T_sto self)\<rparr> = Inr tr"
    by (simp add: simulate_def simulate_run_def)
  from init_Inr [OF assms(1)] assms(2) have h: "0 < hours self"
    and T: "T_sto self = (replicate (hours p) 0)[0 := initial_temp]"
    by simp_all
  from assms(2) obtain n where n: "hours p = Suc (Suc n)"
    by (metis Suc_le_D numeral_2_eq_2 Suc_le_mono le0 not0_implies_Suc not_less_eq_eq)
  have "py_get (map Some (T_sto self)) (- 1) = Inr (Some 0)"
    by (simp add: T n py_get_def nth_append replicate_app_Cons_same flip: replicate_Suc)
  with simulate_hour [OF r h] have "heat_loss_cell self (Some 0) = Inr (Q_loss_cells tr ! 0)"
    by auto
  then show ?thesis
    by (simp add: heat_loss_cell_def)
qed


lemma py_get_before:
  "0 < t \<Longrightarrow> t \<le> length xs \<Longrightarrow> py_get xs (int t - 1) = Inr (xs ! (t - 1))"
  by (cases t) (simp_all add: py_get_def)

lemma simulate_step_returns:
  assumes "\<And>c. \<exists>l. heat_loss_cell self c = Inr l"
    and "t < length (Q_loss_cells tr)" "t < length (Q_sto_cells tr)" "t < length (T_sto_cells tr)"
    and "t < length Q_in" "t < length Q_out"
  shows "\<exists>tr'. simulate_step self Q_in Q_out t tr = Inr tr'"
proof (cases "t = 0")
  case True
  from assms(4) have "T_sto_cells tr \<noteq> []"
    by auto
  then have p: "py_get (T_sto_cells tr) (int 0 - 1) = Inr (last (T_sto_cells tr))"
    by (simp add: py_get_last)
  from assms(1) obtain l where l: "heat_loss_cell self (last (T_sto_cells tr)) = Inr l"
    by blast
  from assms(2-) True have "py_get (T_sto_cells tr) (int 0) = Inr (T_sto_cells tr ! 0)"
    "0 < length (Q_loss_cells tr)" "0 < length (Q_sto_cells tr)"
    by (simp_all add: py_get_nat del: of_nat_0)
  with p l True show ?thesis
    by (simp add: simulate_step_def py_set_def py_get_nat [of 0, simplified] del: of_nat_0)
next
  case False
  with assms(3,4) have p: "py_get (T_sto_cells tr) (int t - 1) = Inr (T_sto_cells tr ! (t - 1))"
    "py_get (Q_sto_cells tr) (int t - 1) = Inr (Q_sto_cells tr ! (t - 1))"
    by (simp_all add: py_get_before)
  from assms(1) obtain l where l: "heat_loss_cell self (T_sto_cells tr ! (t - 1)) = Inr l"
    by blast
  from p l assms(2-) False show ?thesis
    by (simp add: simulate_step_def py_set_def py_get_nat Let_def)
qed

lemma simulate_run_returns:
  assumes "\<And>c. \<exists>l. heat_loss_cell self c = Inr l"
    and "\<forall>t\<in>set ts. t < length (Q_loss_cells tr) \<and> t < length (Q_sto_cells tr)
            \<and> t < length (T_sto_cells tr) \<and> t < length Q_in \<and> t < length Q_out"
  shows "\<exists>tr'. run_steps (simulate_step self Q_in Q_out) ts tr = Inr tr'"
  using assms(2)
proof (induction ts arbitrary: tr)
  case Nil
  then show ?case by simp
next
  case (Cons t ts)
  from Cons.prems have "t < length (Q_loss_cells tr)" "t < length (Q_sto_cells tr)"
    "t < length (T_sto_cells tr)" "t < length Q_in" "t < length Q_out"
    by simp_all
  from simulate_step_returns [OF assms(1) this] obtain tr1
    where step: "simulate_step self Q_in Q_out t tr = Inr tr1"
    by blast
  from simulate_step_Inr [OF step] have "length (Q_loss_cells tr1) = length (Q_loss_cells tr)"
    "length (Q_sto_cells tr1) = length (Q_sto_cells tr)" "length (T_sto_cells tr1) = length (T_sto_cells tr)"
    by auto
  with Cons.prems have "\<forall>t\<in>set ts. t < length (Q_loss_cells tr1) \<and> t < length (Q_sto_cells tr1)
            \<and> t < length (T_sto_cells tr1) \<and> t < length Q_in \<and> t < length Q_out"
    by simp
  from Cons.IH [OF this] step show ?case
    by simp
qed

lemma simulate_returns:
  assumes "\<And>c. \<exists>l. heat_loss_cell self c = Inr l"
    and "hours self \<le> length (Q_loss self)" "hours self \<le> length (Q_sto self)"
    and "hours self \<le> length (T_sto self)" "hours self \<le> length Q_in" "hours self \<le> length Q_out"
  shows "\<exists>tr. simulate self Q_in Q_out = Inr tr"
  unfolding simulate_def simulate_run_def
  using assms(2-) by (intro simulate_run_returns assms(1)) auto

lemma pit_heat_loss_cell:
  assumes "storage_type self = ''truncated_cone'' \<or> storage_type self = ''truncated_trapezoid''"
    "3 \<le> length (dimensions self)"
  shows "\<exists>l. heat_loss_cell self c = Inr l"
proof -
  from assms(2) obtain d0 d1 H ds where d: "dimensions self = d0 # d1 # H # ds"
    by (cases "dimensions self"; cases "tl (dimensions self)"; cases "tl (tl (dimensions self))") auto
  show ?thesis
    by (cases c) (simp_all add: heat_loss_cell_def pit_heat_loss [OF assms(1) d])
qed

theorem hour_zero_loss_of_fresh_run_witness:
  "\<exists>tr. init pit_params 60 = Inr (pit 60) \<and> 2 \<le> hours pit_params
      \<and> simulate (pit 60) [450, 450] [100, 100] = Inr tr
      \<and> calculate_heat_loss (pit 60) 0 = Inr (Q_loss_cells tr ! 0)"
proof -
  have i: "init pit_params 60 = Inr (pit 60)"
    by (rule init_pit)
  have h: "2 \<le> hours pit_params"
    by (simp add: pit_params_def)
  have "\<exists>l. heat_loss_cell (pit 60) c = Inr l" for c
    by (rule pit_heat_loss_cell) (simp_all add: pit_def)
  then have "\<exists>tr. simulate (pit 60) [450, 450] [100, 100] = Inr tr"
    by (rule simulate_returns) (simp_all add: pit_def)
  then obtain tr where r: "simulate (pit 60) [450, 450] [100, 100] = Inr tr"
    by blast
  from hour_zero_loss_of_fresh_run [OF i h r] i h r show ?thesis
    by blast
qed


lemma scaled_loss_differs:
  fixes x s y b :: real
  assumes "0 < x * s + y * b"
  shows "((60 - 10) * x * s + (60 - 10) * y * b) / 1000 \<noteq> ((0 - 10) * x * s + (0 - 10) * y * b) / 1000"
proof -
  define c where "c = x * s + y * b"
  have hot: "((60 - 10) * x * s + (60 - 10) * y * b) / 1000 = c / 20"
    by (simp add: c_def field_simps)
  have cold: "((0 - 10) * x * s + (0 - 10) * y * b) / 1000 = - c / 100"
    by (simp add: c_def field_simps)
  from assms have "0 < c"
    by (simp add: c_def)
  then have "c / 20 \<noteq> - c / 100"
    by simp
  then show ?thesis
    unfolding hot cold .
qed

lemma init_one_hour: "init one_hour_params 60 = Inr one_hour_pit"
  by (simp add: init_def one_hour_params_def one_hour_pit_def pit_params_def pit_def py_set_def
      compute_geometry_def calculate_truncated_trapezoid_geometry_def Let_def sqrt_million)

lemma one_hour_pit_fields:
  "hours one_hour_pit = 1" "Q_sto one_hour_pit = [0]" "Q_loss one_hour_pit = [0]"
  "T_sto one_hour_pit = [60]" "volume one_hour_pit = 19500" "rho one_hour_pit = 1000"
  "cp one_hour_pit = 4180" "T_ref one_hour_pit = 10" "T_max one_hour_pit = 95" "T_min one_hour_pit = 40"
  "T_soil one_hour_pit = 10" "S_side one_hour_pit = 140 * sqrt 1125" "S_bottom one_hour_pit = 2500"
  by (simp_all add: one_hour_pit_def pit_def)

lemma one_hour_pit_loss:
  "calculate_heat_loss one_hour_pit T =
     Inr (Some (((T - 10) * K_s one_hour_pit 50 * S_side one_hour_pit
                 + (T - 10) * K_b one_hour_pit 50 20 * S_bottom one_hour_pit) / 1000))"
proof -
  have "calculate_heat_loss one_hour_pit T =
     Inr (Some (((T - T_soil one_hour_pit) * K_s one_hour_pit 50 * S_side one_hour_pit
                 + (T - T_soil one_hour_pit) * K_b one_hour_pit 50 20 * S_bottom one_hour_pit) / 1000))"
    by (rule pit_heat_loss) (simp_all add: one_hour_pit_def pit_def)
  then show ?thesis
    by (simp only: one_hour_pit_fields)
qed

text \<open>C10, as stated, fails when the horizon is one hour: then the last element of \<open>T_sto\<close>
  is \<open>T_sto[0]\<close>, the initial temperature. The run of the pit storage over one hour from 60
  degrees stores in \<open>Q_loss[0]\<close> the loss at 60 degrees, which is not the loss at 0 degrees.\<close>

theorem one_hour_run_counterexample:
  "run_single_node one_hour_params 60 [450] [100] =
     Inr \<lparr>Q_sto_cells = [Some (3396250 / 3)],
          Q_loss_cells = [Some (((60 - 10) * K_s one_hour_pit 50 * S_side one_hour_pit
                                 + (60 - 10) * K_b one_hour_pit 50 20 * S_bottom one_hour_pit) / 1000)],
          T_sto_cells = [Some 60]\<rparr>
   \<and> calculate_heat_loss one_hour_pit 0 =
       Inr (Some (((0 - 10) * K_s one_hour_pit 50 * S_side one_hour_pit
                   + (0 - 10) * K_b one_hour_pit 50 20 * S_bottom one_hour_pit) / 1000))
   \<and> ((60 - 10) * K_s one_hour_pit 50 * S_side one_hour_pit
        + (60 - 10) * K_b one_hour_pit 50 20 * S_bottom one_hour_pit) / 1000
      \<noteq> ((0 - 10) * K_s one_hour_pit 50 * S_side one_hour_pit
          + (0 - 10) * K_b one_hour_pit 50 20 * S_bottom one_hour_pit) / 1000"
proof (intro conjI)
  show "run_single_node one_hour_params 60 [450] [100] =
     Inr \<lparr>Q_sto_cells = [Some (3396250 / 3)],
          Q_loss_cells = [Some (((60 - 10) * K_s one_hour_pit 50 * S_side one_hour_pit
                                 + (60 - 10) * K_b one_hour_pit 50 20 * S_bottom one_hour_pit) / 1000)],
          T_sto_cells = [Some 60]\<rparr>"
    by (simp add: run_single_node_def init_one_hour simulate_def simulate_run_def simulate_step_def
          heat_loss_cell_def one_hour_pit_loss py_get_def py_set_def one_hour_pit_fields)
  show "calculate_heat_loss one_hour_pit 0 =
       Inr (Some (((0 - 10) * K_s one_hour_pit 50 * S_side one_hour_pit
                   + (0 - 10) * K_b one_hour_pit 50 20 * S_bottom one_hour_pit) / 1000))"
    by (rule one_hour_pit_loss)
  have "0 < K_s one_hour_pit 50"
    by (rule K_s_positive) (simp_all add: one_hour_pit_def pit_def)
  moreover have "0 < K_b one_hour_pit 50 20"
    by (rule K_b_positive) (simp_all add: one_hour_pit_def pit_def)
  moreover have "0 < S_side one_hour_pit" "0 < S_bottom one_hour_pit"
    by (simp_all add: one_hour_pit_fields)
  ultimately have "0 < K_s one_hour_pit 50 * S_side one_hour_pit + K_b one_hour_pit 50 20 * S_bottom one_hour_pit"
    by (intro add_pos_pos mult_pos_pos)
  then show "((60 - 10) * K_s one_hour_pit 50 * S_side one_hour_pit
        + (60 - 10) * K_b one_hour_pit 50 20 * S_bottom one_hour_pit) / 1000
      \<noteq> ((0 - 10) * K_s one_hour_pit 50 * S_side one_hour_pit
          + (0 - 10) * K_b one_hour_pit 50 20 * S_bottom one_hour_pit) / 1000"
    by (rule scaled_loss_differs)
qed

subsection \<open>The single-node simulator on a plain cylinder\<close>

lemma simulate_step_nan:
  assumes "simulate_step self Q_in Q_out t tr = Inr tr'" "0 < t" "Q_sto_cells tr' ! t = None"
  shows "T_sto_cells tr' ! t = None"
  using assms
  apply (simp add: simulate_step_def and_then_eq_Inr py_get_Inr_nat py_set_Inr py_get_pred Let_def)
  apply (elim exE conjE)
  apply (auto simp: py_get_Inr_nat split: option.splits if_splits prod.splits)
  done

lemma simulate_hour_nan:
  assumes "run_steps (simulate_step self Q_in Q_out) [0..<h] tr = Inr tr'" "t < h" "0 < t"
    "Q_sto_cells tr' ! t = None"
  shows "T_sto_cells tr' ! t = None"
proof -
  from run_steps_split [OF assms(1,2)] obtain s1 s2
    where step: "simulate_step self Q_in Q_out t s1 = Inr s2"
      and post: "run_steps (simulate_step self Q_in Q_out) [Suc t..<h] s2 = Inr tr'"
    by blast
  from simulate_frame [OF post, of t]
  have same: "Q_sto_cells tr' ! t = Q_sto_cells s2 ! t" "T_sto_cells tr' ! t = T_sto_cells s2 ! t"
    by simp_all
  with assms(4) simulate_step_nan [OF step assms(3)] show ?thesis
    by simp
qed

lemma cylindrical_heat_loss:
  "storage_type self = ''cylindrical'' \<Longrightarrow> calculate_heat_loss self T = Inr None"
  by (simp add: calculate_heat_loss_def)

text \<open>C9, as amended. For the storage type \<open>cylindrical\<close>, the one cylinder tag that the
  constructor accepts, \<open>calculate_heat_loss\<close> matches no dispatch branch and returns no value
  for every temperature. The assignment \<open>self.Q_loss[t] = None\<close> does not raise: NumPy's
  item assignment to a float array stores \<open>None\<close> as \<open>nan\<close>. So the single-node simulator
  returns on every freshly constructed plain cylinder (given an input value for every hour),
  with \<open>nan\<close> as the heat loss of every hour and as the stored energy and the temperature of
  every hour after hour 0.\<close>

theorem plain_cylinder_single_node_is_nan:
  assumes "init p initial_temp = Inr self" and "storage_type p = ''cylindrical''"
    and "hours p \<le> length Q_in" and "hours p \<le> length Q_out"
  shows "(\<forall>T. calculate_heat_loss self T = Inr None)
       \<and> (\<exists>tr. simulate self Q_in Q_out = Inr tr
             \<and> (\<forall>t<hours p. Q_loss_cells tr ! t = None)
             \<and> (\<forall>t<hours p. 0 < t \<longrightarrow> Q_sto_cells tr ! t = None \<and> T_sto_cells tr ! t = None))"
proof -
  from init_Inr [OF assms(1)] assms(2) have cyl: "storage_type self = ''cylindrical''"
    and h: "hours self = hours p"
    and len: "length (T_sto self) = hours p" "length (Q_sto self) = hours p" "length (Q_loss self) = hours p"
    by simp_all
  have cell: "heat_loss_cell self c = Inr None" for c
    by (cases c) (simp_all add: heat_loss_cell_def cylindrical_heat_loss [OF cyl])
  then have "\<exists>tr. simulate self Q_in Q_out = Inr tr"
    by (intro simulate_returns) (simp_all add: h len assms(3,4))
  then obtain tr where run: "simulate self Q_in Q_out = Inr tr"
    by blast
  then have r: "run_steps (simulate_step self Q_in Q_out) [0..<hours p]
      \<lparr>Q_sto_cells = map Some (Q_sto self), Q_loss_cells = map Some (Q_loss self),
       T_sto_cells = map Some (T_sto self)\<rparr> = Inr tr"
    by (simp add: simulate_def simulate_run_def h)
  have loss: "Q_loss_cells tr ! t = None" if "t < hours p" for t
    using simulate_hour [OF r that] cell by auto
  have sto: "Q_sto_cells tr ! t = None" if "t < hours p" "0 < t" for t
    using simulate_hour [OF r that(1)] loss [OF that(1)] that(2)
    by (auto simp: Q_sto_next_def split: option.splits)
  have temp: "T_sto_cells tr ! t = None" if "t < hours p" "0 < t" for t
    using simulate_hour_nan [OF r that sto [OF that]] .
  from run loss sto temp cylindrical_heat_loss [OF cyl] show ?thesis
    by blast
qed

lemma tank_fields:
  "hours tank = 2" "Q_sto tank = [0, 0]" "Q_loss tank = [0, 0]" "T_sto tank = [60, 0]"
  "volume tank = pi * 25 ^ 2 * 25" "rho tank = 1000" "cp tank = 4180" "T_ref tank = 10"
  "T_max tank = 95" "T_min tank = 40" "storage_type tank = ''cylindrical''"
  by (simp_all add: tank_def)

text \<open>C9, as stated, fails: the two-hour run on the plain cylinder of radius and height
  25 m does not stop at its first step but returns these arrays.\<close>

theorem plain_cylinder_runs_counterexample:
  "run_single_node tank_params 60 [450, 450] [100, 100] =
     Inr \<lparr>Q_sto_cells = [Some (pi * 25 ^ 2 * 25 * 1000 * 4180 * (60 - 10) / 3600000), None],
          Q_loss_cells = [None, None],
          T_sto_cells = [Some 60, None]\<rparr>"
  by (simp add: run_single_node_def init_tank simulate_def simulate_run_def simulate_step_def
        heat_loss_cell_def cylindrical_heat_loss tank_fields py_get_def py_set_def upt_conv_Cons)

theorem plain_cylinder_single_node_is_nan_witness:
  "(\<forall>T. calculate_heat_loss tank T = Inr None)
   \<and> (\<exists>tr. simulate tank [450, 450] [100, 100] = Inr tr
         \<and> Q_loss_cells tr ! 0 = None \<and> Q_loss_cells tr ! 1 = None
         \<and> Q_sto_cells tr ! 1 = None \<and> T_sto_cells tr ! 1 = None)"
proof -
  have "storage_type tank_params = ''cylindrical''" "hours tank_params \<le> length [450, 450 :: real]"
    "hours tank_params \<le> length [100, 100 :: real]" and h: "hours tank_params = 2"
    by (simp_all add: tank_params_def pit_params_def)
  from plain_cylinder_single_node_is_nan [OF init_tank this(1-3)] h show ?thesis
    by (auto simp: numeral_2_eq_2)
qed

subsection \<open>The stratified simulator, hour by hour\<close>

lemma stratified_step_Inr:
  assumes "stratified_step Q_in Q_out N k lt lv t (self, heat) = Inr (self', heat')"
  shows "\<exists>total v row.
           t < length (Q_loss self) \<and> t < length (Q_sto self) \<and> t < length (T_sto self)
         \<and> t < length Q_in \<and> t < length Q_out
         \<and> Q_loss self' = (Q_loss self)[t := total]
         \<and> Q_sto self' = (Q_sto self)[t := sum_list heat']
         \<and> T_sto self' = (T_sto self)[t := v]
         \<and> T_sto_layers self' = (T_sto_layers self)[t := row]"
proof (cases "t = 0")
  case True
  with assms show ?thesis
    apply (simp add: stratified_step_def and_then_eq_Inr py_set_Inr split_paired_Ex)
    apply (elim exE conjE)
    apply (simp add: py_get_Inr_nat [of _ 0, simplified] Let_def and_then_eq_Inr py_set_Inr)
    apply auto
    apply (metis list_update_id)
    done
next
  case False
  with assms show ?thesis
    apply (simp add: stratified_step_def and_then_eq_Inr py_set_Inr py_get_Inr_nat split_paired_Ex)
    apply (elim exE conjE)
    apply (auto simp: and_then_eq_Inr py_set_Inr split: prod.splits)
    done
qed


lemma stratified_frame:
  assumes "run_steps (stratified_step Q_in Q_out N k lt lv) ts st = Inr st'" "j \<notin> set ts"
  shows "Q_loss (fst st') ! j = Q_loss (fst st) ! j \<and> Q_sto (fst st') ! j = Q_sto (fst st) ! j
         \<and> T_sto (fst st') ! j = T_sto (fst st) ! j
         \<and> T_sto_layers (fst st') ! j = T_sto_layers (fst st) ! j"
  using assms
proof (induction ts arbitrary: st)
  case Nil
  then show ?case by simp
next
  case (Cons t ts)
  from Cons.prems(1) obtain st1 where step: "stratified_step Q_in Q_out N k lt lv t st = Inr st1"
    and rest: "run_steps (stratified_step Q_in Q_out N k lt lv) ts st1 = Inr st'"
    by (auto simp: and_then_eq_Inr)
  from Cons.prems(2) have "j \<noteq> t" "j \<notin> set ts" by auto
  from step have "stratified_step Q_in Q_out N k lt lv t (fst st, snd st) = Inr (fst st1, snd st1)"
    by simp
  from stratified_step_Inr [OF this] \<open>j \<noteq> t\<close>
  have "Q_loss (fst st1) ! j = Q_loss (fst st) ! j \<and> Q_sto (fst st1) ! j = Q_sto (fst st) ! j
         \<and> T_sto (fst st1) ! j = T_sto (fst st) ! j
         \<and> T_sto_layers (fst st1) ! j = T_sto_layers (fst st) ! j"
    by auto
  with Cons.IH [OF rest \<open>j \<notin> set ts\<close>] show ?case by simp
qed

lemma stratified_run_loop:
  assumes "stratified_run self Q_in Q_out N k ts0 = Inr r"
  shows "\<exists>lt lv T_0. py_get (T_sto self) 0 = Inr T_0 \<and> 0 < N \<and>
           (\<forall>ts. stratified_run self Q_in Q_out N k ts =
              run_steps (stratified_step Q_in Q_out N k lt lv) ts
                (self\<lparr>T_sto_layers := replicate (hours self) (replicate N T_0)\<rparr>, replicate N 0))"
proof -
  from assms obtain height T_0 where "0 < N" "py_get (T_sto self) 0 = Inr T_0"
    and "\<And>ts. stratified_run self Q_in Q_out N k ts =
              run_steps (stratified_step Q_in Q_out N k (height / real N) (volume self / real N)) ts
                (self\<lparr>T_sto_layers := replicate (hours self) (replicate N T_0)\<rparr>, replicate N 0)"
    by (auto simp: stratified_run_def and_then_eq_Inr Let_def split: if_splits)
  then show ?thesis
    by blast
qed

text \<open>C4. When \<open>simulate_stratified\<close> returns, the stored energy \<open>Q_sto[t]\<close> that it reports
  for an hour \<open>t\<close> is the sum of \<open>heat_stored_per_layer\<close> as the loop leaves it at the end of
  hour \<open>t\<close> (the state after the hours 0 to \<open>t\<close>), in exact arithmetic.\<close>

theorem stratified_total_is_sum_of_layers:
  assumes "simulate_stratified self Q_in Q_out N k = Inr (self', heat')" and "t < hours self"
  shows "\<exists>s heat. stratified_run self Q_in Q_out N k [0..<Suc t] = Inr (s, heat)
           \<and> Q_sto self' ! t = sum_list heat"
proof -
  from assms(1) have full: "stratified_run self Q_in Q_out N k [0..<hours self] = Inr (self', heat')"
    by (simp add: simulate_stratified_def)
  from stratified_run_loop [OF full] obtain lt lv st0
    where loop: "\<And>ts. stratified_run self Q_in Q_out N k ts =
                   run_steps (stratified_step Q_in Q_out N k lt lv) ts st0"
    by blast
  from full loop have "run_steps (stratified_step Q_in Q_out N k lt lv) [0..<hours self] st0 = Inr (self', heat')"
    by simp
  from run_steps_split [OF this assms(2)] obtain s1 s2
    where pre: "run_steps (stratified_step Q_in Q_out N k lt lv) [0..<t] st0 = Inr s1"
      and step: "stratified_step Q_in Q_out N k lt lv t s1 = Inr s2"
      and post: "run_steps (stratified_step Q_in Q_out N k lt lv) [Suc t..<hours self] s2 = Inr (self', heat')"
    by blast
  from pre step have "stratified_run self Q_in Q_out N k [0..<Suc t] = Inr (fst s2, snd s2)"
    by (simp add: loop run_steps_append)
  moreover from step have "stratified_step Q_in Q_out N k lt lv t (fst s1, snd s1) = Inr (fst s2, snd s2)"
    by simp
  from stratified_step_Inr [OF this] have "Q_sto (fst s2) ! t = sum_list (snd s2)"
    by auto
  moreover from stratified_frame [OF post, of t] have "Q_sto self' ! t = Q_sto (fst s2) ! t"
    by simp
  ultimately have "stratified_run self Q_in Q_out N k [0..<Suc t] = Inr (fst s2, snd s2)
      \<and> Q_sto self' ! t = sum_list (snd s2)"
    by simp
  then show ?thesis
    by blast
qed


lemma pit_fields:
  "hours (pit T0) = 2" "Q_sto (pit T0) = [0, 0]" "Q_loss (pit T0) = [0, 0]" "T_sto (pit T0) = [T0, 0]"
  "volume (pit T0) = 19500" "rho (pit T0) = 1000" "cp (pit T0) = 4180" "T_ref (pit T0) = 10"
  "T_max (pit T0) = 95" "T_min (pit T0) = 40" "T_soil (pit T0) = 10" "T_amb (pit T0) = 10"
  "S_side (pit T0) = 140 * sqrt 1125" "S_bottom (pit T0) = 2500" "S_top (pit T0) = 400"
  "storage_type (pit T0) = ''truncated_trapezoid''" "dimensions (pit T0) = [20, 20, 50, 50, 15]"
  "lambda_top (pit T0) = 0.04" "dt_top (pit T0) = 0.3"
  by (simp_all add: pit_def)

lemma pit_two_layer_loss:
  "calculate_stratified_heat_loss (pit T0) [40, 40]
     = Inr ([8 / 5, 75 * K_b (pit T0) 50 20], 8 / 5 + 75 * K_b (pit T0) 50 20)"
proof -
  have "layer_loss (pit T0) n i T =
     Inr (spec_layer_loss (K_b (pit T0) 50 20) (T_soil (pit T0)) (K_s (pit T0) 50) (T_soil (pit T0)) (pit T0) n i T)"
    for n i T
    by (rule layer_loss_pit) (simp_all add: pit_fields)
  then show ?thesis
    by (simp add: calculate_stratified_heat_loss_def spec_layer_loss_def pit_fields)
qed

lemma layer_loss_arrays [simp]:
  "layer_loss (self\<lparr>T_sto_layers := x5\<rparr>) = layer_loss self"
  "layer_loss (self\<lparr>Q_loss_layers := x4\<rparr>) = layer_loss self"
  "layer_loss (self\<lparr>Q_loss := x1\<rparr>) = layer_loss self"
  "layer_loss (self\<lparr>Q_sto := x2\<rparr>) = layer_loss self"
  "layer_loss (self\<lparr>T_sto := x3\<rparr>) = layer_loss self"
  by (simp_all add: layer_loss_def dim_at_def fun_eq_iff Let_def cong del: if_weak_cong)

lemma layer_losses_cong:
  "layer_loss self' = layer_loss self \<Longrightarrow> layer_losses self' n i Ts = layer_losses self n i Ts"
  by (induction Ts arbitrary: i) simp_all

lemma layer_losses_arrays [simp]:
  "layer_losses (self\<lparr>T_sto_layers := x5\<rparr>) n i Ts = layer_losses self n i Ts"
  "layer_losses (self\<lparr>Q_loss_layers := x4\<rparr>) n i Ts = layer_losses self n i Ts"
  "layer_losses (self\<lparr>Q_loss := x1\<rparr>) n i Ts = layer_losses self n i Ts"
  "layer_losses (self\<lparr>Q_sto := x2\<rparr>) n i Ts = layer_losses self n i Ts"
  "layer_losses (self\<lparr>T_sto := x3\<rparr>) n i Ts = layer_losses self n i Ts"
  by (rule layer_losses_cong, simp)+

lemma stratified_loss_arrays [simp]:
  "calculate_stratified_heat_loss (self\<lparr>T_sto_layers := x5\<rparr>) = calculate_stratified_heat_loss self"
  "calculate_stratified_heat_loss (self\<lparr>Q_loss_layers := x4\<rparr>) = calculate_stratified_heat_loss self"
  "calculate_stratified_heat_loss (self\<lparr>Q_loss := x1\<rparr>) = calculate_stratified_heat_loss self"
  "calculate_stratified_heat_loss (self\<lparr>Q_sto := x2\<rparr>) = calculate_stratified_heat_loss self"
  "calculate_stratified_heat_loss (self\<lparr>T_sto := x3\<rparr>) = calculate_stratified_heat_loss self"
  by (simp_all add: calculate_stratified_heat_loss_def fun_eq_iff)

lemma replicate_two: "replicate 2 x = [x, x]"
  by (simp add: numeral_2_eq_2)

text \<open>The two-hour, two-layer run of the pit storage from 40 degrees without input or
  output: the temperature of the top layer at hour 1, the lower bound, the energy of the top
  layer, and the stored energy.\<close>

lemma pit_two_layer_run:
  "map_sum id (\<lambda>(s, heat). (T_sto_layers s ! 1 ! 0, T_min s, heat, Q_sto s))
     (simulate_stratified (pit 40) [0, 0] [0, 0] 2 (6 / 10))
   = Inr (1018874999 / 25471875, 40,
          [764156249 / 2250, 339625 - K_b (pit 40) 50 20 / 48],
          [679250, 1528312499 / 2250 - K_b (pit 40) 50 20 / 48])"
  by (simp add: simulate_stratified_def stratified_run_def pit_fields dim_at_def py_get_def upt_conv_Cons
     Let_def replicate_two stratified_step_def py_set_def pit_two_layer_loss
     layer_passes_def discharge_layer_def charge_layer_def diffusion_pass_def diffuse_pair_def)


theorem stratified_total_is_sum_of_layers_witness:
  "\<exists>self' heat' s heat.
      simulate_stratified (pit 40) [0, 0] [0, 0] 2 (6 / 10) = Inr (self', heat')
    \<and> stratified_run (pit 40) [0, 0] [0, 0] 2 (6 / 10) [0..<Suc 1] = Inr (s, heat)
    \<and> Q_sto self' ! 1 = sum_list heat"
proof -
  from pit_two_layer_run obtain self' heat'
    where run: "simulate_stratified (pit 40) [0, 0] [0, 0] 2 (6 / 10) = Inr (self', heat')"
    by (cases "simulate_stratified (pit 40) [0, 0] [0, 0] 2 (6 / 10)") auto
  have "1 < hours (pit 40)"
    by (simp add: pit_fields)
  from stratified_total_is_sum_of_layers [OF run this] run show ?thesis
    by blast
qed

text \<open>C1. The claim: every layer temperature of the stratified simulator stays within
  \<open>[T_min, T_max]\<close>. The code clamps at \<open>T_min\<close> in the charge pass, but the diffusion pass
  then recomputes both temperatures of a pair from the layer energies, from which the
  per-layer loss has been subtracted, and clamps nothing. The pit storage of the script,
  started at \<open>T_min = 40\<close> with two layers and neither input nor output, has its top layer
  below \<open>T_min\<close> after one hour.\<close>

theorem top_layer_falls_below_T_min:
  "map_sum id (\<lambda>(s, heat). (T_sto_layers s ! 1 ! 0, T_min s))
     (run_stratified pit_params 40 [0, 0] [0, 0] 2 (6 / 10))
     = Inr (1018874999 / 25471875, 40)
   \<and> (1018874999 / 25471875 :: real) < 40"
proof -
  from pit_two_layer_run obtain s heat
    where run: "simulate_stratified (pit 40) [0, 0] [0, 0] 2 (6 / 10) = Inr (s, heat)"
    by (cases "simulate_stratified (pit 40) [0, 0] [0, 0] 2 (6 / 10)") auto
  with pit_two_layer_run have "T_sto_layers s ! 1 ! 0 = 1018874999 / 25471875" "T_min s = 40"
    by simp_all
  with run show ?thesis
    by (simp add: run_stratified_def init_pit)
qed

subsection \<open>One layer against the single node\<close>

text \<open>What hour \<open>t\<close> of \<open>simulate\<close> leaves in \<open>T_sto[t]\<close>: the clamped initial temperature at
  hour 0, the clamped temperature of the stored energy afterwards.\<close>

lemma simulate_step_T:
  assumes "simulate_step self Q_in Q_out t tr = Inr tr'"
  shows "T_sto_cells tr' ! t =
           clamp_cell self
             (if t = 0 then T_sto_cells tr ! 0
              else map_option (\<lambda>q. (q * 3600000) / (volume self * rho self * cp self) + T_ref self)
                     (Q_sto_cells tr' ! t))"
proof (cases "t = 0")
  case True
  with assms show ?thesis
    apply (simp add: simulate_step_def and_then_eq_Inr py_get_Inr_nat py_set_Inr clamp_cell_def)
    apply (elim exE conjE)
    apply (auto simp: py_get_Inr_nat [of _ 0, simplified] split: option.splits if_splits)
    done
next
  case False
  with assms show ?thesis
    apply (simp add: simulate_step_def and_then_eq_Inr py_get_Inr_nat py_set_Inr py_get_pred Let_def clamp_cell_def)
    apply (elim exE conjE)
    apply (auto simp: py_get_Inr_nat split: option.splits if_splits prod.splits)
    done
qed

lemma simulate_hour_T:
  assumes "run_steps (simulate_step self Q_in Q_out) [0..<h] tr = Inr tr'" "t < h"
  shows "T_sto_cells tr' ! t =
           clamp_cell self
             (if t = 0 then T_sto_cells tr ! 0
              else map_option (\<lambda>q. (q * 3600000) / (volume self * rho self * cp self) + T_ref self)
                     (Q_sto_cells tr' ! t))"
proof -
  from run_steps_split [OF assms] obtain s1 s2
    where pre: "run_steps (simulate_step self Q_in Q_out) [0..<t] tr = Inr s1"
      and step: "simulate_step self Q_in Q_out t s1 = Inr s2"
      and post: "run_steps (simulate_step self Q_in Q_out) [Suc t..<h] s2 = Inr tr'"
    by blast
  from simulate_frame [OF post, of t]
  have same: "Q_sto_cells tr' ! t = Q_sto_cells s2 ! t" "T_sto_cells tr' ! t = T_sto_cells s2 ! t"
    by simp_all
  have "t = 0 \<Longrightarrow> s1 = tr"
    using pre by simp
  with simulate_step_T [OF step] same show ?thesis
    by (cases "t = 0") simp_all
qed

lemma stratified_step_zero:
  assumes "stratified_step Q_in Q_out N k lt lv 0 (self, heat) = Inr (self', heat')"
  shows "heat' = replicate N (volume self * rho self * cp self * (T_sto self ! 0 - T_ref self) / 3600000 / real N)"
    and "Q_sto self' ! 0 = sum_list heat'"
    and "T_sto self' ! 0 = sum_list (T_sto_layers self ! 0) / real (length (T_sto_layers self ! 0))"
  using assms
    apply (simp_all add: stratified_step_def and_then_eq_Inr py_set_Inr split_paired_Ex)
    apply (elim exE conjE,
      simp add: py_get_Inr_nat [of _ 0, simplified] Let_def and_then_eq_Inr py_set_Inr, auto)+
  done

lemma init_Inr_bounds:
  assumes "init p T0 = Inr self"
  shows "T_min self = T_min p" "T_max self = T_max p" "T_sto self ! 0 = T0"
  using assms
  by (auto simp: init_def and_then_eq_Inr py_set_Inr)

text \<open>C8, as amended. For an object that the constructor built with an initial temperature
  within \<open>[T_min, T_max]\<close>, when both \<open>simulate\<close> and \<open>simulate_stratified\<close> with
  \<open>num_layers = 1\<close> return, they agree at hour 0 on the stored energy \<open>Q_sto[0]\<close> and on the
  aggregate temperature \<open>T_sto[0]\<close>; and with one layer the diffusion pass transfers nothing
  (it leaves the layer energies and temperatures as they are). The heat loss, and the
  trajectory from hour 1 on, are left out: they differ in general.\<close>

theorem one_layer_agrees_at_hour_zero:
  assumes "init p initial_temp = Inr self"
    and "T_min p \<le> initial_temp" and "initial_temp \<le> T_max p"
    and "simulate self Q_in Q_out = Inr tr"
    and "simulate_stratified self Q_in Q_out 1 k = Inr (s, heat)"
  shows "Q_sto_cells tr ! 0 = Some (Q_sto s ! 0) \<and> T_sto_cells tr ! 0 = Some (T_sto s ! 0)
         \<and> diffusion_pass self k lt lv 1 st = st"
proof -
  note i = init_Inr [OF assms(1)] init_Inr_bounds [OF assms(1)]
  from i have h: "0 < hours self"
    by simp
  from assms(4) have r: "run_steps (simulate_step self Q_in Q_out) [0..<hours self]
      \<lparr>Q_sto_cells = map Some (Q_sto self), Q_loss_cells = map Some (Q_loss self),
       T_sto_cells = map Some (T_sto self)\<rparr> = Inr tr"
    by (simp add: simulate_def simulate_run_def)
  from i have T0: "map Some (T_sto self) ! 0 = Some initial_temp"
    by (simp add: nth_list_update)
  from simulate_hour [OF r h] T0
  have q: "Q_sto_cells tr ! 0 =
      Some (volume self * rho self * cp self * (initial_temp - T_ref self) / 3600000)"
    by (auto simp: Q_sto_next_def)
  from simulate_hour_T [OF r h] T0 i assms(2,3) have T: "T_sto_cells tr ! 0 = Some initial_temp"
    by (simp add: clamp_cell_def)
  from assms(5) have full: "stratified_run self Q_in Q_out 1 k [0..<hours self] = Inr (s, heat)"
    by (simp add: simulate_stratified_def)
  from stratified_run_loop [OF full] obtain lt' lv' T_0
    where g: "py_get (T_sto self) 0 = Inr T_0"
      and loop: "\<And>ts. stratified_run self Q_in Q_out 1 k ts =
                   run_steps (stratified_step Q_in Q_out 1 k lt' lv') ts
                     (self\<lparr>T_sto_layers := replicate (hours self) (replicate 1 T_0)\<rparr>, replicate 1 0)"
    by blast
  from g i have T_0: "T_0 = initial_temp"
    by (simp add: py_get_def split: if_splits)
  let ?st0 = "(self\<lparr>T_sto_layers := replicate (hours self) (replicate 1 T_0)\<rparr>, replicate 1 (0::real))"
  from full loop have "run_steps (stratified_step Q_in Q_out 1 k lt' lv') [0..<hours self] ?st0 = Inr (s, heat)"
    by simp
  from run_steps_split [OF this h] obtain s2
    where step: "stratified_step Q_in Q_out 1 k lt' lv' 0 ?st0 = Inr s2"
      and post: "run_steps (stratified_step Q_in Q_out 1 k lt' lv') [Suc 0..<hours self] s2 = Inr (s, heat)"
    by auto
  from step have step': "stratified_step Q_in Q_out 1 k lt' lv' 0 ?st0 = Inr (fst s2, snd s2)"
    by simp
  from stratified_step_zero [OF step'] h T_0 i
  have "Q_sto (fst s2) ! 0 = volume self * rho self * cp self * (initial_temp - T_ref self) / 3600000"
    "T_sto (fst s2) ! 0 = initial_temp"
    by simp_all
  moreover from stratified_frame [OF post, of 0]
  have "Q_sto s ! 0 = Q_sto (fst s2) ! 0" "T_sto s ! 0 = T_sto (fst s2) ! 0"
    by simp_all
  ultimately have "Q_sto s ! 0 = volume self * rho self * cp self * (initial_temp - T_ref self) / 3600000"
    "T_sto s ! 0 = initial_temp"
    by simp_all
  with q T show ?thesis
    by (simp add: diffusion_pass_def)
qed

lemma pit_loss:
  "calculate_heat_loss (pit T0) T =
     Inr (Some (((T - 10) * K_s (pit T0) 50 * S_side (pit T0)
                 + (T - 10) * K_b (pit T0) 50 20 * S_bottom (pit T0)) / 1000))"
proof -
  have "calculate_heat_loss (pit T0) T =
     Inr (Some (((T - T_soil (pit T0)) * K_s (pit T0) 50 * S_side (pit T0)
                 + (T - T_soil (pit T0)) * K_b (pit T0) 50 20 * S_bottom (pit T0)) / 1000))"
    by (rule pit_heat_loss) (simp_all add: pit_fields)
  then show ?thesis
    by (simp only: pit_fields)
qed

lemma pit_loss_positive:
  "0 < ((60 - 10) * K_s (pit T0) 50 * S_side (pit T0)
         + (60 - 10) * K_b (pit T0) 50 20 * S_bottom (pit T0)) / 1000"
proof -
  have "0 < K_s (pit T0) 50"
    by (rule K_s_positive) (simp_all add: pit_def)
  moreover have "0 < K_b (pit T0) 50 20"
    by (rule K_b_positive) (simp_all add: pit_def)
  moreover have "0 < S_side (pit T0)" "0 < S_bottom (pit T0)"
    by (simp_all add: pit_fields)
  ultimately have "0 < (60 - 10) * K_s (pit T0) 50 * S_side (pit T0)
         + (60 - 10) * K_b (pit T0) 50 20 * S_bottom (pit T0)"
    by (intro add_pos_pos mult_pos_pos) simp_all
  then show ?thesis
    by simp
qed

lemma pit_single_node_hour_one:
  "map_sum id (\<lambda>tr. T_sto_cells tr ! 1) (simulate (pit 60) [0, 0] [0, 10000000]) = Inr (Some 40)"
proof -
  let ?Q_in = "[0, 0] :: real list" and ?Q_out = "[0, 10000000] :: real list"
  define L where "L = ((60 - 10) * K_s (pit 60) 50 * S_side (pit 60)
         + (60 - 10) * K_b (pit 60) 50 20 * S_bottom (pit 60)) / 1000"
  have L: "0 < L" "calculate_heat_loss (pit 60) 60 = Inr (Some L)"
    unfolding L_def by (rule pit_loss_positive, rule pit_loss)
  have "\<exists>l. heat_loss_cell (pit 60) c = Inr l" for c
    by (rule pit_heat_loss_cell) (simp_all add: pit_fields)
  then have "\<exists>tr. simulate (pit 60) ?Q_in ?Q_out = Inr tr"
    by (rule simulate_returns) (simp_all add: pit_fields)
  then obtain tr where run: "simulate (pit 60) ?Q_in ?Q_out = Inr tr"
    by blast
  then have r: "run_steps (simulate_step (pit 60) ?Q_in ?Q_out) [0..<2]
      \<lparr>Q_sto_cells = [Some 0, Some 0], Q_loss_cells = [Some 0, Some 0],
       T_sto_cells = [Some 60, Some 0]\<rparr> = Inr tr"
    by (simp add: simulate_def simulate_run_def pit_fields)
  have h: "(0::nat) < 2" "(1::nat) < 2"
    by simp_all
  from simulate_hour [OF r h(1)] have q0: "Q_sto_cells tr ! 0 = Some (3396250 / 3)"
    by (auto simp: Q_sto_next_def pit_fields)
  from simulate_hour_T [OF r h(1)] have T0: "T_sto_cells tr ! 0 = Some 60"
    by (simp add: clamp_cell_def pit_fields)
  from simulate_hour [OF r h(2)] obtain s1 T_prev
    where prev: "py_get (T_sto_cells s1) (int 1 - 1) = Inr T_prev"
      and loss: "heat_loss_cell (pit 60) T_prev = Inr (Q_loss_cells tr ! 1)"
      and len: "1 < length (T_sto_cells s1)"
      and next1: "Q_sto_cells tr ! 1 = Q_sto_next (pit 60) ?Q_in ?Q_out 1 s1 (Q_loss_cells tr ! 1)"
      and before: "\<forall>j<1. Q_sto_cells tr ! j = Q_sto_cells s1 ! j \<and> T_sto_cells tr ! j = T_sto_cells s1 ! j"
    by blast
  from before q0 T0 have s1: "Q_sto_cells s1 ! 0 = Some (3396250 / 3)" "T_sto_cells s1 ! 0 = Some 60"
    by simp_all
  from len have ne: "T_sto_cells s1 \<noteq> []"
    by auto
  from prev ne s1 have "T_prev = Some 60"
    by (simp add: py_get_def)
  with loss L have l1: "Q_loss_cells tr ! 1 = Some L"
    by (simp add: heat_loss_cell_def)
  with next1 s1 have q1': "Q_sto_cells tr ! 1 = Some (3396250 / 3 + (0 - 10000000 - L))"
    by (simp add: Q_sto_next_def)
  define x where "x = ((3396250 / 3 + (0 - 10000000 - L)) * 3600000)
      / (volume (pit 60) * rho (pit 60) * cp (pit 60)) + T_ref (pit 60)"
  from L(1) have cold: "x < 40"
    by (simp add: x_def pit_fields)
  from simulate_hour_T [OF r h(2)] have "T_sto_cells tr ! 1 =
      clamp_cell (pit 60)
        (map_option (\<lambda>q. (q * 3600000) / (volume (pit 60) * rho (pit 60) * cp (pit 60)) + T_ref (pit 60))
           (Q_sto_cells tr ! 1))"
    by simp
  then have "T_sto_cells tr ! 1 = clamp_cell (pit 60) (Some x)"
    unfolding q1' option.map x_def .
  with cold have "T_sto_cells tr ! 1 = Some 40"
    by (simp add: clamp_cell_def pit_fields)
  with run show ?thesis
    by simp
qed

lemma pit_one_layer_loss:
  "calculate_stratified_heat_loss (pit T0) [60] = Inr ([8 / 3], 8 / 3)"
proof -
  have "layer_loss (pit T0) n i T =
     Inr (spec_layer_loss (K_b (pit T0) 50 20) (T_soil (pit T0)) (K_s (pit T0) 50) (T_soil (pit T0)) (pit T0) n i T)"
    for n i T
    by (rule layer_loss_pit) (simp_all add: pit_fields)
  then show ?thesis
    by (simp add: calculate_stratified_heat_loss_def spec_layer_loss_def pit_fields)
qed

lemma pit_one_layer_run:
  "map_sum id (\<lambda>(s, heat). (T_sto s ! 1, heat, Q_sto s))
     (simulate_stratified (pit 60) [0, 0] [0, 10000000] 1 (6 / 10))
     = Inr (60, [916987499 / 1350], [3396250 / 3, 916987499 / 1350])"
  by (simp add: simulate_stratified_def stratified_run_def pit_fields dim_at_def py_get_def upt_conv_Cons
     Let_def stratified_step_def py_set_def pit_one_layer_loss
     layer_passes_def discharge_layer_def charge_layer_def diffusion_pass_def diffuse_pair_def)

text \<open>C8, as stated, fails: on the pit storage of \<open>pit_params\<close> started at 60 degrees, over
  two hours with no input and an output of 10000000 kW in hour 1, the single-node simulator
  ends hour 1 at the lower clamp, \<open>T_sto[1] = 40\<close>, while the stratified simulator with one
  layer ends it at \<open>T_sto[1] = 60\<close>: its charge pass puts the layer temperature back to the one
  of the hour before.\<close>

theorem one_layer_keeps_temperature_counterexample:
  "map_sum id (\<lambda>tr. T_sto_cells tr ! 1) (run_single_node pit_params 60 [0, 0] [0, 10000000])
     = Inr (Some 40)
   \<and> map_sum id (\<lambda>(s, heat). T_sto s ! 1) (run_stratified pit_params 60 [0, 0] [0, 10000000] 1 (6 / 10))
     = Inr 60"
proof -
  from pit_one_layer_run obtain s heat
    where run: "simulate_stratified (pit 60) [0, 0] [0, 10000000] 1 (6 / 10) = Inr (s, heat)"
    by (cases "simulate_stratified (pit 60) [0, 0] [0, 10000000] 1 (6 / 10)") auto
  with pit_one_layer_run have "T_sto s ! 1 = 60"
    by simp
  with run pit_single_node_hour_one show ?thesis
    by (simp add: run_single_node_def run_stratified_def init_pit)
qed

theorem one_layer_agrees_at_hour_zero_witness:
  "\<exists>tr s heat.
      init pit_params 60 = Inr (pit 60) \<and> T_min pit_params \<le> 60 \<and> 60 \<le> T_max pit_params
    \<and> simulate (pit 60) [0, 0] [0, 10000000] = Inr tr
    \<and> simulate_stratified (pit 60) [0, 0] [0, 10000000] 1 (6 / 10) = Inr (s, heat)
    \<and> Q_sto_cells tr ! 0 = Some (Q_sto s ! 0) \<and> T_sto_cells tr ! 0 = Some (T_sto s ! 0)
    \<and> diffusion_pass (pit 60) (6 / 10) 50 19500 1 ([1], [60]) = ([1], [60])"
proof -
  from pit_one_layer_run obtain s heat
    where strat: "simulate_stratified (pit 60) [0, 0] [0, 10000000] 1 (6 / 10) = Inr (s, heat)"
    by (cases "simulate_stratified (pit 60) [0, 0] [0, 10000000] 1 (6 / 10)") auto
  from pit_single_node_hour_one obtain tr
    where single: "simulate (pit 60) [0, 0] [0, 10000000] = Inr tr"
    by (cases "simulate (pit 60) [0, 0] [0, 10000000]") auto
  have bounds: "T_min pit_params \<le> 60" "60 \<le> T_max pit_params"
    by (simp_all add: pit_params_def)
  from one_layer_agrees_at_hour_zero [OF init_pit bounds single strat, of 50 19500 "([1], [60])"]
    init_pit [of 60] bounds single strat
  show ?thesis
    by blast
qed

end
